theory Spec2Isabelle
  imports Main
begin

section \<open>JavaScript values\<close>

text \<open>
  The functions of \<^verbatim>\<open>src/lib/appwrite/api.ts\<close> pass around whatever the vendor SDK
  hands back, and test those values only for truthiness (\<^verbatim>\<open>if (!x) throw Error\<close>).
  A response is therefore an untyped JavaScript value. A number inside a value is an
  integer: the module only tests such a number for truthiness or passes it on.
  \<open>Fun n\<close> is the function object named \<open>n\<close>: \<^verbatim>\<open>throw Error\<close> throws the
  constructor \<^verbatim>\<open>Error\<close> itself, not an instance.
\<close>

datatype jsval =
    Undefined
  | Null
  | Bool bool
  | Num int
  | Str string
  | Arr "jsval list"
  | Obj "(string \<times> jsval) list"
  | Fun string

fun truthy :: "jsval \<Rightarrow> bool" where
  "truthy Undefined = False"
| "truthy Null = False"
| "truthy (Bool b) = b"
| "truthy (Num n) = (n \<noteq> 0)"
| "truthy (Str s) = (s \<noteq> [])"
| "truthy (Arr xs) = True"
| "truthy (Obj fs) = True"
| "truthy (Fun n) = True"

text \<open>\<^verbatim>\<open>a || b\<close>\<close>

definition js_or :: "jsval \<Rightarrow> jsval \<Rightarrow> jsval" where
  "js_or a b = (if truthy a then a else b)"

text \<open>
  The property read \<^verbatim>\<open>v.k\<close>. Every such read in the source follows a truthiness
  check of \<open>v\<close>, so the TypeError of reading a property of \<^verbatim>\<open>undefined\<close> or
  \<^verbatim>\<open>null\<close> cannot arise there; the keys read are \<^verbatim>\<open>$id\<close>, \<^verbatim>\<open>name\<close>,
  \<^verbatim>\<open>email\<close> and \<^verbatim>\<open>documents\<close>.
\<close>

fun field :: "jsval \<Rightarrow> string \<Rightarrow> jsval" where
  "field (Obj fs) k = (case map_of fs k of Some v \<Rightarrow> v | None \<Rightarrow> Undefined)"
| "field (Fun n) k = (if k = ''name'' then Str n else Undefined)"
| "field v k = Undefined"

definition TypeError :: jsval where
  "TypeError = Obj [(''name'', Str ''TypeError'')]"

text \<open>
  The indexed read \<^verbatim>\<open>v[0]\<close>, which the source applies to an unchecked value
  (\<^verbatim>\<open>currentUser.documents[0]\<close>): it throws on \<^verbatim>\<open>undefined\<close> and \<^verbatim>\<open>null\<close>,
  and is \<^verbatim>\<open>undefined\<close> past the end of an array.
\<close>

fun index0 :: "jsval \<Rightarrow> jsval + jsval" where
  "index0 Undefined = Inl TypeError"
| "index0 Null = Inl TypeError"
| "index0 (Arr xs) = Inr (case xs of [] \<Rightarrow> Undefined | x # _ \<Rightarrow> x)"
| "index0 (Str s) = Inr (case s of [] \<Rightarrow> Undefined | c # _ \<Rightarrow> Str [c])"
| "index0 (Obj fs) = Inr (field (Obj fs) ''0'')"
| "index0 v = Inr Undefined"

definition of_string_opt :: "string option \<Rightarrow> jsval" where
  "of_string_opt s = (case s of None \<Rightarrow> Undefined | Some t \<Rightarrow> Str t)"

definition of_number_opt :: "int option \<Rightarrow> jsval" where
  "of_number_opt n = (case n of None \<Rightarrow> Undefined | Some k \<Rightarrow> Num k)"

text \<open>\<^verbatim>\<open>xs[0]\<close> on a typed array of files: \<^verbatim>\<open>undefined\<close> when the array is empty.\<close>

definition first_file :: "jsval list \<Rightarrow> jsval" where
  "first_file fs = (case fs of [] \<Rightarrow> Undefined | f # _ \<Rightarrow> f)"

section \<open>Strings\<close>

text \<open>The decimal numeral of an integer.\<close>

fun digits10 :: "nat \<Rightarrow> string" where
  "digits10 n =
     (if n < 10 then [''0123456789'' ! n]
      else digits10 (n div 10) @ [''0123456789'' ! (n mod 10)])"

declare digits10.simps [simp del]

definition decimal :: "int \<Rightarrow> string" where
  "decimal n = (if n < 0 then CHR ''-'' # digits10 (nat (- n)) else digits10 (nat n))"

text \<open>
  The \<^verbatim>\<open>number\<close> that \<^verbatim>\<open>getInfinitePosts\<close> receives. The function tests it for
  truthiness and converts it with \<^verbatim>\<open>toString()\<close>, and does nothing else with it.
  \<^verbatim>\<open>toString()\<close> writes an integer as its decimal numeral only in the safe range, up
  to \<open>2^53 - 1\<close> in magnitude: beyond it the numeral is rounded
  (\<open>2^60\<close> gives \<^verbatim>\<open>1152921504606847000\<close>) and from \<open>10^21\<close> on it has an exponent
  (\<^verbatim>\<open>1e+21\<close>). So a safe integer is given by its value, and any other number (a
  fraction, a larger integer, an infinity) by the string \<^verbatim>\<open>toString()\<close> writes for it,
  which determines the number. The falsy numbers are zero and \<^verbatim>\<open>NaN\<close>; \<^verbatim>\<open>-0\<close> is
  the safe integer \<open>0\<close>, falsy and written \<^verbatim>\<open>0\<close> as well.
\<close>

typedef safe_integer = "{n :: int. \<bar>n\<bar> \<le> 9007199254740991}"
  by (rule exI [of _ 0]) simp

datatype number =
    SafeInteger safe_integer
  | OtherNumber string
  | NaN

fun truthy_number :: "number \<Rightarrow> bool" where
  "truthy_number (SafeInteger n) = (Rep_safe_integer n \<noteq> 0)"
| "truthy_number (OtherNumber s) = (s \<noteq> ''0'' \<and> s \<noteq> ''NaN'')"
| "truthy_number NaN = False"

fun toString :: "number \<Rightarrow> string" where
  "toString (SafeInteger n) = decimal (Rep_safe_integer n)"
| "toString (OtherNumber s) = s"
| "toString NaN = ''NaN''"

text \<open>\<^verbatim>\<open>s.replace(/ /g, "")\<close>\<close>

definition replace_spaces :: "string \<Rightarrow> string" where
  "replace_spaces s = filter (\<lambda>c. c \<noteq> CHR '' '') s"

text \<open>
  \<^verbatim>\<open>s.split(sep)\<close> with a one-character separator: the pieces between the
  separators, so never an empty array (\<^verbatim>\<open>"".split(",")\<close> is \<^verbatim>\<open>[""]\<close>).
\<close>

fun split :: "char \<Rightarrow> string \<Rightarrow> string list" where
  "split sep [] = [[]]"
| "split sep (c # cs) =
     (if c = sep then [] # split sep cs
      else (case split sep cs of [] \<Rightarrow> [[c]] | p # ps \<Rightarrow> (c # p) # ps))"

text \<open>\<^verbatim>\<open>post.tags?.replace(/ /g, "").split(",") || []\<close>\<close>

definition convert_tags :: "string option \<Rightarrow> jsval" where
  "convert_tags tags =
     js_or (case tags of
              None \<Rightarrow> Undefined
            | Some t \<Rightarrow> Arr (map Str (split CHR '','' (replace_spaces t))))
           (Arr [])"

text \<open>
  The conversion as the specification words it: the string with every space character
  removed, split on commas; no tags when the string is absent.
\<close>

definition tags_spec :: "string option \<Rightarrow> jsval" where
  "tags_spec tgs =
     (case tgs of
        None \<Rightarrow> Arr []
      | Some t \<Rightarrow> Arr (map Str (split CHR '','' (filter (\<lambda>c. c \<noteq> CHR '' '') t))))"

section \<open>The vendor SDK\<close>

text \<open>
  \<^verbatim>\<open>Query.equal\<close>, \<^verbatim>\<open>Query.search\<close>, \<^verbatim>\<open>Query.orderDesc\<close>, \<^verbatim>\<open>Query.limit\<close> and
  \<^verbatim>\<open>Query.cursorAfter\<close> build query terms without side effect.
\<close>

datatype query =
    Query_equal string jsval
  | Query_search string string
  | Query_orderDesc string
  | Query_limit int
  | Query_cursorAfter string

text \<open>
  One constructor for each SDK method the module calls, with the arguments of the call.
  The methods the source awaits go to the remote service; \<^verbatim>\<open>avatars.getInitials\<close>
  and \<^verbatim>\<open>storage.getFilePreview\<close> are used synchronously.
\<close>

datatype call =
    Account_create jsval string string string
  | Account_createEmailPasswordSession string string
  | Account_get
  | Account_deleteSession string
  | Avatars_getInitials string
  | Databases_createDocument string string jsval jsval
  | Databases_listDocuments string string "query list"
  | Databases_getDocument string string jsval
  | Databases_updateDocument string string jsval jsval
  | Databases_deleteDocument string string jsval
  | Storage_createFile string jsval jsval
  | Storage_getFilePreview string jsval int int string int
  | Storage_deleteFile string jsval

fun remote :: "call \<Rightarrow> bool" where
  "remote (Avatars_getInitials n) = False"
| "remote (Storage_getFilePreview b f w h g q) = False"
| "remote c = True"

definition ImageGravity_Top :: string where
  "ImageGravity_Top = ''top''"

text \<open>
  \<^verbatim>\<open>appwriteConfig\<close> comes from \<^verbatim>\<open>./config\<close>, which is not part of the sources: the
  identifiers it holds are parameters.
\<close>

record appwriteConfig =
  databaseId :: string
  storageId :: string
  userCollectionId :: string
  postCollectionId :: string
  savesCollectionId :: string

text \<open>
  The SDK, and the service behind it, answer a call with a value (\<open>Inr\<close>) or throw
  (\<open>Inl\<close>; for an awaited call, the promise rejects). The answer may depend on every
  call made before, so \<open>respond\<close> is a function of the history and the call.
  \<^verbatim>\<open>ID.unique()\<close> makes up an identifier locally and does not fail; which one is
  left open (\<open>unique\<close>). All the theorems hold for every such SDK.
\<close>

type_synonym response = "jsval + jsval"

record sdk =
  respond :: "call list \<Rightarrow> call \<Rightarrow> response"
  unique :: "call list \<Rightarrow> jsval"

record world =
  calls :: "call list"
  console :: "jsval list"

type_synonym 'a action = "world \<Rightarrow> (jsval + 'a) \<times> world"

definition return :: "'a \<Rightarrow> 'a action" where
  "return v w = (Inr v, w)"

definition throw :: "jsval \<Rightarrow> 'a action" where
  "throw e w = (Inl e, w)"

definition andThen :: "'a action \<Rightarrow> ('a \<Rightarrow> 'b action) \<Rightarrow> 'b action" where
  "andThen m f w = (case m w of (Inl e, w') \<Rightarrow> (Inl e, w') | (Inr v, w') \<Rightarrow> f v w')"

definition try_catch :: "'a action \<Rightarrow> (jsval \<Rightarrow> 'a action) \<Rightarrow> 'a action" where
  "try_catch m h w = (case m w of (Inl e, w') \<Rightarrow> h e w' | (Inr v, w') \<Rightarrow> (Inr v, w'))"

definition perform :: "sdk \<Rightarrow> call \<Rightarrow> jsval action" where
  "perform sdk c w = (respond sdk (calls w) c, w\<lparr>calls := calls w @ [c]\<rparr>)"

definition ID_unique :: "sdk \<Rightarrow> jsval action" where
  "ID_unique sdk w = (Inr (unique sdk (calls w)), w)"

definition console_log :: "jsval \<Rightarrow> jsval action" where
  "console_log v w = (Inr Undefined, w\<lparr>console := console w @ [v]\<rparr>)"

definition lift :: "jsval + 'a \<Rightarrow> 'a action" where
  "lift r w = (r, w)"

definition Error :: jsval where
  "Error = Fun ''Error''"

section \<open>The exported functions\<close>

text \<open>
  Each function is the source's body, statement by statement: \<open>andThen\<close> is the
  sequencing of \<^verbatim>\<open>await\<close>, \<open>try_catch\<close> the \<^verbatim>\<open>try { } catch (error) { }\<close>,
  and a function that ends without \<^verbatim>\<open>return\<close> yields \<^verbatim>\<open>undefined\<close>. The value of
  an \<open>action\<close> is \<open>Inr v\<close> when the promise resolves to \<open>v\<close> and \<open>Inl e\<close> when it
  rejects with \<open>e\<close>.
\<close>

definition saveUserToDB :: "sdk \<Rightarrow> appwriteConfig \<Rightarrow> jsval \<Rightarrow> jsval action" where
  "saveUserToDB sdk cfg user =
     try_catch
       (andThen (ID_unique sdk) (\<lambda>uid.
        andThen (perform sdk (Databases_createDocument
                   (databaseId cfg) (userCollectionId cfg) uid user)) (\<lambda>newUser.
        return newUser)))
       (\<lambda>error. andThen (console_log error) (\<lambda>_. return Undefined))"

definition getAccount :: "sdk \<Rightarrow> jsval action" where
  "getAccount sdk =
     try_catch
       (andThen (perform sdk Account_get) (\<lambda>currentAccount.
        return currentAccount))
       (\<lambda>error. andThen (console_log error) (\<lambda>_. return Undefined))"

definition getCurrentUser :: "sdk \<Rightarrow> appwriteConfig \<Rightarrow> jsval action" where
  "getCurrentUser sdk cfg =
     try_catch
       (andThen (getAccount sdk) (\<lambda>currentAccount.
        if \<not> truthy currentAccount then throw Error
        else
        andThen (perform sdk (Databases_listDocuments
                   (databaseId cfg) (userCollectionId cfg)
                   [Query_equal ''accountId'' (field currentAccount ''$id'')])) (\<lambda>currentUser.
        if \<not> truthy currentUser then throw Error
        else
        andThen (lift (index0 (field currentUser ''documents''))) (\<lambda>document.
        return document))))
       (\<lambda>error. andThen (console_log error) (\<lambda>_. return Null))"

definition signOutAccount :: "sdk \<Rightarrow> jsval action" where
  "signOutAccount sdk =
     try_catch
       (andThen (perform sdk (Account_deleteSession ''current'')) (\<lambda>session.
        return session))
       (\<lambda>error. andThen (console_log error) (\<lambda>_. return Undefined))"

definition uploadFile :: "sdk \<Rightarrow> appwriteConfig \<Rightarrow> jsval \<Rightarrow> jsval action" where
  "uploadFile sdk cfg file =
     try_catch
       (andThen (ID_unique sdk) (\<lambda>uid.
        andThen (perform sdk (Storage_createFile (storageId cfg) uid file)) (\<lambda>uploadedFile.
        return uploadedFile)))
       (\<lambda>error. andThen (console_log error) (\<lambda>_. return Undefined))"

definition getFilePreview :: "sdk \<Rightarrow> appwriteConfig \<Rightarrow> jsval \<Rightarrow> jsval action" where
  "getFilePreview sdk cfg fileId =
     try_catch
       (andThen (perform sdk (Storage_getFilePreview (storageId cfg) fileId
                   2000 2000 ImageGravity_Top 100)) (\<lambda>fileUrl.
        if \<not> truthy fileUrl then throw Error
        else return fileUrl))
       (\<lambda>error. andThen (console_log error) (\<lambda>_. return Undefined))"

definition deleteFile :: "sdk \<Rightarrow> appwriteConfig \<Rightarrow> jsval \<Rightarrow> jsval action" where
  "deleteFile sdk cfg fileId =
     try_catch
       (andThen (perform sdk (Storage_deleteFile (storageId cfg) fileId)) (\<lambda>_.
        return (Obj [(''status'', Str ''ok'')])))
       (\<lambda>error. andThen (console_log error) (\<lambda>_. return Undefined))"

definition searchPosts :: "sdk \<Rightarrow> appwriteConfig \<Rightarrow> string \<Rightarrow> jsval action" where
  "searchPosts sdk cfg searchTerm =
     try_catch
       (andThen (perform sdk (Databases_listDocuments
                   (databaseId cfg) (postCollectionId cfg)
                   [Query_search ''caption'' searchTerm])) (\<lambda>posts.
        if \<not> truthy posts then throw Error
        else return posts))
       (\<lambda>error. andThen (console_log error) (\<lambda>_. return Undefined))"

definition getInfinitePosts :: "sdk \<Rightarrow> appwriteConfig \<Rightarrow> number \<Rightarrow> jsval action" where
  "getInfinitePosts sdk cfg pageParam =
     (let queries = [Query_orderDesc ''$updatedAt'', Query_limit 9];
          queries = (if truthy_number pageParam
                     then queries @ [Query_cursorAfter (toString pageParam)]
                     else queries)
      in try_catch
           (andThen (perform sdk (Databases_listDocuments
                       (databaseId cfg) (postCollectionId cfg) queries)) (\<lambda>posts.
            if \<not> truthy posts then throw Error
            else return posts))
           (\<lambda>error. andThen (console_log error) (\<lambda>_. return Undefined)))"

definition getPostById :: "sdk \<Rightarrow> appwriteConfig \<Rightarrow> string option \<Rightarrow> jsval action" where
  "getPostById sdk cfg postId =
     (if \<not> truthy (of_string_opt postId) then throw Error
      else
      try_catch
        (andThen (perform sdk (Databases_getDocument
                    (databaseId cfg) (postCollectionId cfg) (of_string_opt postId))) (\<lambda>post.
         if \<not> truthy post then throw Error
         else return post))
        (\<lambda>error. andThen (console_log error) (\<lambda>_. return Undefined)))"

definition deletePost ::
  "sdk \<Rightarrow> appwriteConfig \<Rightarrow> string option \<Rightarrow> string option \<Rightarrow> jsval action" where
  "deletePost sdk cfg postId imageId =
     (if \<not> truthy (of_string_opt postId) \<or> \<not> truthy (of_string_opt imageId)
      then return Undefined
      else
      try_catch
        (andThen (perform sdk (Databases_deleteDocument
                    (databaseId cfg) (postCollectionId cfg) (of_string_opt postId))) (\<lambda>statusCode.
         if \<not> truthy statusCode then throw Error
         else
         andThen (deleteFile sdk cfg (of_string_opt imageId)) (\<lambda>_.
         return (Obj [(''status'', Str ''Ok'')]))))
        (\<lambda>error. andThen (console_log error) (\<lambda>_. return Undefined)))"

definition likePost :: "sdk \<Rightarrow> appwriteConfig \<Rightarrow> string \<Rightarrow> string list \<Rightarrow> jsval action" where
  "likePost sdk cfg postId likesArray =
     try_catch
       (andThen (perform sdk (Databases_updateDocument
                   (databaseId cfg) (postCollectionId cfg) (Str postId)
                   (Obj [(''likes'', Arr (map Str likesArray))]))) (\<lambda>updatedPost.
        if \<not> truthy updatedPost then throw Error
        else return updatedPost))
       (\<lambda>error. andThen (console_log error) (\<lambda>_. return Undefined))"

definition savePost :: "sdk \<Rightarrow> appwriteConfig \<Rightarrow> string \<Rightarrow> string \<Rightarrow> jsval action" where
  "savePost sdk cfg userId postId =
     try_catch
       (andThen (ID_unique sdk) (\<lambda>uid.
        andThen (perform sdk (Databases_createDocument
                   (databaseId cfg) (savesCollectionId cfg) uid
                   (Obj [(''user'', Str userId), (''post'', Str postId)]))) (\<lambda>updatedPost.
        if \<not> truthy updatedPost then throw Error
        else return updatedPost)))
       (\<lambda>error. andThen (console_log error) (\<lambda>_. return Undefined))"

definition deleteSavedPost :: "sdk \<Rightarrow> appwriteConfig \<Rightarrow> string \<Rightarrow> jsval action" where
  "deleteSavedPost sdk cfg savedRecordId =
     try_catch
       (andThen (perform sdk (Databases_deleteDocument
                   (databaseId cfg) (savesCollectionId cfg) (Str savedRecordId))) (\<lambda>statusCode.
        if \<not> truthy statusCode then throw Error
        else return (Obj [(''status'', Str ''Ok'')])))
       (\<lambda>error. andThen (console_log error) (\<lambda>_. return Undefined))"

definition getUserPosts :: "sdk \<Rightarrow> appwriteConfig \<Rightarrow> string option \<Rightarrow> jsval action" where
  "getUserPosts sdk cfg userId =
     (if \<not> truthy (of_string_opt userId) then return Undefined
      else
      try_catch
        (andThen (perform sdk (Databases_listDocuments
                    (databaseId cfg) (postCollectionId cfg)
                    [Query_equal ''creator'' (of_string_opt userId),
                     Query_orderDesc ''$createdAt''])) (\<lambda>post.
         if \<not> truthy post then throw Error
         else return post))
        (\<lambda>error. andThen (console_log error) (\<lambda>_. return Undefined)))"

definition getRecentPosts :: "sdk \<Rightarrow> appwriteConfig \<Rightarrow> jsval action" where
  "getRecentPosts sdk cfg =
     try_catch
       (andThen (perform sdk (Databases_listDocuments
                   (databaseId cfg) (postCollectionId cfg)
                   [Query_orderDesc ''$createdAt'', Query_limit 20])) (\<lambda>posts.
        if \<not> truthy posts then throw Error
        else return posts))
       (\<lambda>error. andThen (console_log error) (\<lambda>_. return Undefined))"

definition getUsers :: "sdk \<Rightarrow> appwriteConfig \<Rightarrow> int option \<Rightarrow> jsval action" where
  "getUsers sdk cfg limit =
     (let queries = [Query_orderDesc ''$createdAt''];
          queries = (case limit of
                       None \<Rightarrow> queries
                     | Some n \<Rightarrow> if truthy (Num n) then queries @ [Query_limit n] else queries)
      in try_catch
           (andThen (perform sdk (Databases_listDocuments
                       (databaseId cfg) (userCollectionId cfg) queries)) (\<lambda>users.
            if \<not> truthy users then throw Error
            else return users))
           (\<lambda>error. andThen (console_log error) (\<lambda>_. return Undefined)))"

definition getUserById :: "sdk \<Rightarrow> appwriteConfig \<Rightarrow> string \<Rightarrow> jsval action" where
  "getUserById sdk cfg userId =
     try_catch
       (andThen (perform sdk (Databases_getDocument
                   (databaseId cfg) (userCollectionId cfg) (Str userId))) (\<lambda>user.
        if \<not> truthy user then throw Error
        else return user))
       (\<lambda>error. andThen (console_log error) (\<lambda>_. return Undefined))"

subsection \<open>Functions of a typed request payload\<close>

text \<open>
  The payload types \<^verbatim>\<open>INewUser\<close>, \<^verbatim>\<open>INewPost\<close>, \<^verbatim>\<open>IUpdatePost\<close> and
  \<^verbatim>\<open>IUpdateUser\<close> are declared in \<^verbatim>\<open>@/types\<close>, outside the sources; the records
  hold the fields the functions read. A \<^verbatim>\<open>File\<close> and a \<^verbatim>\<open>URL\<close> are opaque values,
  and a field read with \<^verbatim>\<open>?.\<close> or passed on as it is may be absent.
\<close>

record INewUser =
  name :: string
  email :: string
  username :: string
  password :: string

record Credentials =
  email :: string
  password :: string

record INewPost =
  userId :: string
  caption :: string
  "file" :: "jsval list"
  location :: "string option"
  tags :: "string option"

record IUpdatePost =
  postId :: string
  caption :: string
  imageId :: string
  imageUrl :: jsval
  "file" :: "jsval list"
  location :: "string option"
  tags :: "string option"

record IUpdateUser =
  userId :: string
  name :: string
  bio :: string
  imageId :: string
  imageUrl :: jsval
  "file" :: "jsval list"

definition createUserAccount :: "sdk \<Rightarrow> appwriteConfig \<Rightarrow> INewUser \<Rightarrow> jsval action" where
  "createUserAccount sdk cfg user =
     try_catch
       (andThen (ID_unique sdk) (\<lambda>uid.
        andThen (perform sdk (Account_create uid (INewUser.email user)
                   (INewUser.password user) (INewUser.name user))) (\<lambda>newAccount.
        if \<not> truthy newAccount then throw Error
        else
        andThen (perform sdk (Avatars_getInitials (INewUser.name user))) (\<lambda>avatarUrl.
        andThen (saveUserToDB sdk cfg (Obj
                   [(''accountId'', field newAccount ''$id''),
                    (''name'', field newAccount ''name''),
                    (''email'', field newAccount ''email''),
                    (''username'', Str (username user)),
                    (''imageUrl'', avatarUrl)])) (\<lambda>newUser.
        return newUser)))))
       (\<lambda>error. andThen (console_log error) (\<lambda>_. return error))"

definition signInAccount :: "sdk \<Rightarrow> Credentials \<Rightarrow> jsval action" where
  "signInAccount sdk user =
     try_catch
       (andThen (perform sdk (Account_createEmailPasswordSession
                   (Credentials.email user) (Credentials.password user))) (\<lambda>session.
        return session))
       (\<lambda>error. andThen (console_log error) (\<lambda>_. return Undefined))"

definition createPost :: "sdk \<Rightarrow> appwriteConfig \<Rightarrow> INewPost \<Rightarrow> jsval action" where
  "createPost sdk cfg post =
     try_catch
       (andThen (uploadFile sdk cfg (first_file (INewPost.file post))) (\<lambda>uploadedFile.
        if \<not> truthy uploadedFile then throw Error
        else
        andThen (getFilePreview sdk cfg (field uploadedFile ''$id'')) (\<lambda>fileUrl.
        if \<not> truthy fileUrl
        then andThen (deleteFile sdk cfg (field uploadedFile ''$id'')) (\<lambda>_. throw Error)
        else
        let tags = convert_tags (INewPost.tags post) in
        andThen (ID_unique sdk) (\<lambda>uid.
        andThen (perform sdk (Databases_createDocument
                   (databaseId cfg) (postCollectionId cfg) uid
                   (Obj [(''creator'', Str (INewPost.userId post)),
                         (''caption'', Str (INewPost.caption post)),
                         (''imageUrl'', fileUrl),
                         (''imageId'', field uploadedFile ''$id''),
                         (''location'', of_string_opt (INewPost.location post)),
                         (''tags'', tags)]))) (\<lambda>newPost.
        if \<not> truthy newPost
        then andThen (deleteFile sdk cfg (field uploadedFile ''$id'')) (\<lambda>_. throw Error)
        else return newPost)))))
       (\<lambda>error. andThen (console_log error) (\<lambda>_. return Undefined))"

definition updatePost :: "sdk \<Rightarrow> appwriteConfig \<Rightarrow> IUpdatePost \<Rightarrow> jsval action" where
  "updatePost sdk cfg post =
     (let hasFileToUpdate = (length (IUpdatePost.file post) > 0) in
      try_catch
        (andThen
           (if hasFileToUpdate
            then
              andThen (uploadFile sdk cfg (first_file (IUpdatePost.file post))) (\<lambda>uploadedFile.
              if \<not> truthy uploadedFile then throw Error
              else
              andThen (getFilePreview sdk cfg (field uploadedFile ''$id'')) (\<lambda>fileUrl.
              if \<not> truthy fileUrl
              then andThen (deleteFile sdk cfg (field uploadedFile ''$id'')) (\<lambda>_. throw Error)
              else return (fileUrl, field uploadedFile ''$id'')))
            else return (IUpdatePost.imageUrl post, Str (IUpdatePost.imageId post)))
           (\<lambda>(image_imageUrl, image_imageId).
         let tags = convert_tags (IUpdatePost.tags post) in
         andThen (perform sdk (Databases_updateDocument
                    (databaseId cfg) (postCollectionId cfg) (Str (postId post))
                    (Obj [(''caption'', Str (IUpdatePost.caption post)),
                          (''imageUrl'', image_imageUrl),
                          (''imageId'', image_imageId),
                          (''location'', of_string_opt (IUpdatePost.location post)),
                          (''tags'', tags)]))) (\<lambda>updatedPost.
         if \<not> truthy updatedPost
         then andThen (if hasFileToUpdate then deleteFile sdk cfg image_imageId
                       else return Undefined) (\<lambda>_.
              throw Error)
         else
         andThen (if hasFileToUpdate then deleteFile sdk cfg (Str (IUpdatePost.imageId post))
                  else return Undefined) (\<lambda>_.
         return updatedPost))))
        (\<lambda>error. andThen (console_log error) (\<lambda>_. return Undefined)))"

definition updateUser :: "sdk \<Rightarrow> appwriteConfig \<Rightarrow> IUpdateUser \<Rightarrow> jsval action" where
  "updateUser sdk cfg user =
     (let hasFileToUpdate = (length (IUpdateUser.file user) > 0) in
      try_catch
        (andThen
           (if hasFileToUpdate
            then
              andThen (uploadFile sdk cfg (first_file (IUpdateUser.file user))) (\<lambda>uploadedFile.
              if \<not> truthy uploadedFile then throw Error
              else
              andThen (getFilePreview sdk cfg (field uploadedFile ''$id'')) (\<lambda>fileUrl.
              if \<not> truthy fileUrl
              then andThen (deleteFile sdk cfg (field uploadedFile ''$id'')) (\<lambda>_. throw Error)
              else return (fileUrl, field uploadedFile ''$id'')))
            else return (IUpdateUser.imageUrl user, Str (IUpdateUser.imageId user)))
           (\<lambda>(image_imageUrl, image_imageId).
         andThen (perform sdk (Databases_updateDocument
                    (databaseId cfg) (userCollectionId cfg) (Str (IUpdateUser.userId user))
                    (Obj [(''name'', Str (IUpdateUser.name user)),
                          (''bio'', Str (bio user)),
                          (''imageUrl'', image_imageUrl),
                          (''imageId'', image_imageId)]))) (\<lambda>updatedUser.
         if \<not> truthy updatedUser
         then andThen (if hasFileToUpdate then deleteFile sdk cfg image_imageId
                       else return Undefined) (\<lambda>_.
              throw Error)
         else
         andThen (if truthy (Str (IUpdateUser.imageId user)) \<and> hasFileToUpdate
                  then deleteFile sdk cfg (Str (IUpdateUser.imageId user))
                  else return Undefined) (\<lambda>_.
         return updatedUser))))
        (\<lambda>error. andThen (console_log error) (\<lambda>_. return Undefined)))"

section \<open>Observing a run\<close>

text \<open>
  What a call of an exported function did is read off the two worlds around it: the SDK
  calls it added to the history, the entries it added to the console, and, by asking the
  SDK again at each point of the history, the answer every call received.
\<close>

definition new_calls :: "world \<Rightarrow> world \<Rightarrow> call list" where
  "new_calls w w' = drop (length (calls w)) (calls w')"

definition new_logs :: "world \<Rightarrow> world \<Rightarrow> jsval list" where
  "new_logs w w' = drop (length (console w)) (console w')"

fun responses :: "sdk \<Rightarrow> call list \<Rightarrow> call list \<Rightarrow> (call \<times> response) list" where
  "responses sdk h [] = []"
| "responses sdk h (c # cs) = (c, respond sdk h c) # responses sdk (h @ [c]) cs"

definition run_responses :: "sdk \<Rightarrow> 'a action \<Rightarrow> world \<Rightarrow> (call \<times> response) list" where
  "run_responses sdk m w = responses sdk (calls w) (new_calls w (snd (m w)))"

definition remote_responses :: "sdk \<Rightarrow> 'a action \<Rightarrow> world \<Rightarrow> (call \<times> response) list" where
  "remote_responses sdk m w = filter (\<lambda>cr. remote (fst cr)) (run_responses sdk m w)"

definition remote_count :: "'a action \<Rightarrow> world \<Rightarrow> nat" where
  "remote_count m w = length (filter remote (new_calls w (snd (m w))))"






text \<open>
  A run that logged nothing and reached the remote service returns the answer of its
  last remote call as it is.
\<close>

definition forwards :: "sdk \<Rightarrow> jsval action \<Rightarrow> world \<Rightarrow> bool" where
  "forwards sdk m w =
     (new_logs w (snd (m w)) = [] \<and> remote_responses sdk m w \<noteq> []
        \<longrightarrow> fst (m w) = snd (last (remote_responses sdk m w)))"




text \<open>A run that logged nothing and reached the remote service returns \<open>v\<close>.\<close>

definition returns_on_success :: "jsval \<Rightarrow> sdk \<Rightarrow> jsval action \<Rightarrow> world \<Rightarrow> bool" where
  "returns_on_success v sdk m w =
     (new_logs w (snd (m w)) = [] \<and> remote_responses sdk m w \<noteq> [] \<longrightarrow> fst (m w) = Inr v)"

text \<open>A run that logged nothing returns the answer of its last SDK call, remote or not.\<close>

definition forwards_last :: "sdk \<Rightarrow> jsval action \<Rightarrow> world \<Rightarrow> bool" where
  "forwards_last sdk m w =
     (new_logs w (snd (m w)) = []
        \<longrightarrow> run_responses sdk m w \<noteq> [] \<and> fst (m w) = snd (last (run_responses sdk m w)))"

text \<open>
  A run that logged nothing returns the first element of the \<^verbatim>\<open>documents\<close> of the
  answer of its last call.
\<close>

definition returns_first_document :: "sdk \<Rightarrow> jsval action \<Rightarrow> world \<Rightarrow> bool" where
  "returns_first_document sdk m w =
     (new_logs w (snd (m w)) = []
        \<longrightarrow> run_responses sdk m w \<noteq> []
            \<and> (case snd (last (run_responses sdk m w)) of
                  Inl e \<Rightarrow> False
                | Inr v \<Rightarrow> fst (m w) = index0 (field v ''documents'')))"

text \<open>A document write (creation or update) whose promise rejected.\<close>

fun is_failed_write :: "call \<times> response \<Rightarrow> bool" where
  "is_failed_write (Databases_createDocument d c i x, Inl e) = True"
| "is_failed_write (Databases_updateDocument d c i x, Inl e) = True"
| "is_failed_write cr = False"

text \<open>The identifiers of the files a run uploaded, as the service answered them.\<close>

fun uploaded :: "(call \<times> response) list \<Rightarrow> jsval list" where
  "uploaded [] = []"
| "uploaded ((Storage_createFile b i f, Inr v) # rs) =
     (if truthy v then field v ''$id'' # uploaded rs else uploaded rs)"
| "uploaded (cr # rs) = uploaded rs"

text \<open>The identifiers of the files a run asked the service to delete.\<close>

fun deleted :: "(call \<times> response) list \<Rightarrow> jsval list" where
  "deleted [] = []"
| "deleted ((Storage_deleteFile b f, r) # rs) = f # deleted rs"
| "deleted (cr # rs) = deleted rs"

fun is_update :: "call \<times> response \<Rightarrow> bool" where
  "is_update (Databases_updateDocument d c i x, r) = True"
| "is_update cr = False"

text \<open>
  A run that logged nothing returns the answer of its document update; \<open>old\<close> is the
  file the run deletes after the update, if it replaces one.
\<close>

definition forwards_update :: "call option \<Rightarrow> sdk \<Rightarrow> jsval action \<Rightarrow> world \<Rightarrow> bool" where
  "forwards_update old sdk m w =
     (new_logs w (snd (m w)) = []
        \<longrightarrow> filter is_update (run_responses sdk m w) \<noteq> []
            \<and> fst (m w) = snd (last (filter is_update (run_responses sdk m w)))
            \<and> (case old of
                  None \<Rightarrow> is_update (last (run_responses sdk m w))
                | Some c \<Rightarrow> fst (last (run_responses sdk m w)) = c
                           \<and> is_update (last (butlast (run_responses sdk m w)))))"

text \<open>A property of what a run did: of the calls it made with their answers, of the
  entries it logged and of its result.\<close>

definition observed ::
  "((call \<times> response) list \<Rightarrow> jsval list \<Rightarrow> response \<Rightarrow> bool)
     \<Rightarrow> sdk \<Rightarrow> jsval action \<Rightarrow> world \<Rightarrow> bool" where
  "observed T sdk m w = T (run_responses sdk m w) (new_logs w (snd (m w))) (fst (m w))"

text \<open>
  The outcomes of a function that makes one SDK call inside its \<^verbatim>\<open>try\<close>: when the
  call throws, the error is logged and the result is \<^verbatim>\<open>undefined\<close>; when it answers
  \<open>v\<close>, a function that checks the answer (\<^verbatim>\<open>if (!x) throw Error\<close>) and finds it
  falsy logs \<^verbatim>\<open>Error\<close> and returns \<^verbatim>\<open>undefined\<close>; otherwise nothing is logged and
  the result is \<open>v\<close>, or the function's own value when it has one.
\<close>

fun single_call_outcome ::
  "bool \<Rightarrow> jsval option \<Rightarrow> (call \<times> response) list \<Rightarrow> jsval list \<Rightarrow> response \<Rightarrow> bool" where
  "single_call_outcome checked own [(c, Inl e)] ls r = (ls = [e] \<and> r = Inr Undefined)"
| "single_call_outcome checked own [(c, Inr v)] ls r =
     (if checked \<and> \<not> truthy v then ls = [Error] \<and> r = Inr Undefined
      else ls = [] \<and> r = Inr (case own of None \<Rightarrow> v | Some x \<Rightarrow> x))"
| "single_call_outcome checked own rs ls r = False"

text \<open>
  The outcomes of \<^verbatim>\<open>createUserAccount\<close>, by the answers to \<^verbatim>\<open>account.create\<close>,
  \<^verbatim>\<open>avatars.getInitials\<close> and the document creation of \<^verbatim>\<open>saveUserToDB\<close>: its own
  \<^verbatim>\<open>catch\<close> returns the error it caught; a failure inside \<^verbatim>\<open>saveUserToDB\<close> gives
  \<^verbatim>\<open>undefined\<close>.
\<close>

fun createUserAccount_outcome ::
  "(call \<times> response) list \<Rightarrow> jsval list \<Rightarrow> response \<Rightarrow> bool" where
  "createUserAccount_outcome [(c, Inl e)] ls r = (ls = [e] \<and> r = Inr e)"
| "createUserAccount_outcome [(c, Inr a)] ls r =
     (\<not> truthy a \<and> ls = [Error] \<and> r = Inr Error)"
| "createUserAccount_outcome [(c, Inr a), (c', Inl e)] ls r =
     (truthy a \<and> ls = [e] \<and> r = Inr e)"
| "createUserAccount_outcome [(c, Inr a), (c', Inr u), (c'', Inl e)] ls r =
     (truthy a \<and> ls = [e] \<and> r = Inr Undefined)"
| "createUserAccount_outcome [(c, Inr a), (c', Inr u), (c'', Inr v)] ls r =
     (truthy a \<and> ls = [] \<and> r = Inr v)"
| "createUserAccount_outcome rs ls r = False"

text \<open>
  The outcomes of \<^verbatim>\<open>getCurrentUser\<close>, by the answers to \<^verbatim>\<open>account.get\<close> and to the
  listing.
\<close>

fun getCurrentUser_outcome ::
  "(call \<times> response) list \<Rightarrow> jsval list \<Rightarrow> response \<Rightarrow> bool" where
  "getCurrentUser_outcome [(c, Inl e)] ls r = (ls = [e, Error] \<and> r = Inr Null)"
| "getCurrentUser_outcome [(c, Inr a)] ls r =
     (\<not> truthy a \<and> ls = [Error] \<and> r = Inr Null)"
| "getCurrentUser_outcome [(c, Inr a), (c', Inl e)] ls r =
     (truthy a \<and> ls = [e] \<and> r = Inr Null)"
| "getCurrentUser_outcome [(c, Inr a), (c', Inr u)] ls r =
     (truthy a \<and>
      (if \<not> truthy u then ls = [Error] \<and> r = Inr Null
       else (case index0 (field u ''documents'') of
               Inl e \<Rightarrow> ls = [e] \<and> r = Inr Null
             | Inr d \<Rightarrow> ls = [] \<and> r = Inr d)))"
| "getCurrentUser_outcome rs ls r = False"

text \<open>
  The outcomes of \<^verbatim>\<open>deletePost\<close> past its guard, by the answers to the document
  deletion and to the file deletion: once the document is deleted the result is
  \<^verbatim>\<open>{ status: "Ok" }\<close>, whether the file deletion succeeds or not.
\<close>

fun deletePost_outcome ::
  "(call \<times> response) list \<Rightarrow> jsval list \<Rightarrow> response \<Rightarrow> bool" where
  "deletePost_outcome [(c, Inl e)] ls r = (ls = [e] \<and> r = Inr Undefined)"
| "deletePost_outcome [(c, Inr s)] ls r =
     (\<not> truthy s \<and> ls = [Error] \<and> r = Inr Undefined)"
| "deletePost_outcome [(c, Inr s), (c', Inl e)] ls r =
     (truthy s \<and> ls = [e] \<and> r = Inr (Obj [(''status'', Str ''Ok'')]))"
| "deletePost_outcome [(c, Inr s), (c', Inr v)] ls r =
     (truthy s \<and> ls = [] \<and> r = Inr (Obj [(''status'', Str ''Ok'')]))"
| "deletePost_outcome rs ls r = False"

text \<open>
  The truthy answer to the document write (creation or update) of a run,
  \<^verbatim>\<open>undefined\<close> when there is none.
\<close>

fun written :: "(call \<times> response) list \<Rightarrow> jsval" where
  "written [] = Undefined"
| "written ((Databases_createDocument d c i x, Inr v) # rs) =
     (if truthy v then v else written rs)"
| "written ((Databases_updateDocument d c i x, Inr v) # rs) =
     (if truthy v then v else written rs)"
| "written (cr # rs) = written rs"

text \<open>
  The result of the run is the answer to its document write when that answer is truthy,
  and \<^verbatim>\<open>undefined\<close> otherwise, whatever else the run did.
\<close>

definition returns_written :: "sdk \<Rightarrow> jsval action \<Rightarrow> world \<Rightarrow> bool" where
  "returns_written sdk m w = (fst (m w) = Inr (written (run_responses sdk m w)))"

fun answered :: "call \<times> response \<Rightarrow> bool" where
  "answered (c, Inr v) = truthy v"
| "answered (c, Inl e) = False"

text \<open>
  A run in which every call is answered with a truthy value logs nothing and makes
  \<open>n\<close> calls.
\<close>

definition success_run :: "nat \<Rightarrow> sdk \<Rightarrow> jsval action \<Rightarrow> world \<Rightarrow> bool" where
  "success_run n sdk m w =
     (list_all answered (run_responses sdk m w)
        \<longrightarrow> new_logs w (snd (m w)) = [] \<and> length (run_responses sdk m w) = n)"

text \<open>
  The specification of an action, for the proofs: every run extends the history and the
  console, and \<open>T\<close> holds of the answered calls and the log entries it added and of its
  result.
\<close>

definition spec ::
  "sdk \<Rightarrow> 'a action
     \<Rightarrow> ((call \<times> response) list \<Rightarrow> jsval list \<Rightarrow> jsval + 'a \<Rightarrow> bool) \<Rightarrow> bool" where
  "spec sdk m T =
     (\<forall>w. \<exists>cs ls. snd (m w) = w\<lparr>calls := calls w @ cs, console := console w @ ls\<rparr>
                \<and> T (responses sdk (calls w) cs) ls (fst (m w)))"

text \<open>The \<^verbatim>\<open>tags\<close> field of the document a call writes.\<close>

fun stored_tags :: "call \<Rightarrow> jsval option" where
  "stored_tags (Databases_createDocument d c i x) = Some (field x ''tags'')"
| "stored_tags (Databases_updateDocument d c i x) = Some (field x ''tags'')"
| "stored_tags c = None"

text \<open>\<^verbatim>\<open>pieces.join(sep)\<close>, the inverse of \<^verbatim>\<open>split\<close>.\<close>

fun join :: "char \<Rightarrow> string list \<Rightarrow> string" where
  "join sep [] = []"
| "join sep [p] = p"
| "join sep (p # q # ps) = p @ sep # join sep (q # ps)"

section \<open>Sample inputs\<close>

definition cfg0 :: appwriteConfig where
  "cfg0 = \<lparr>databaseId = ''db'', storageId = ''bucket'', userCollectionId = ''users'',
           postCollectionId = ''posts'', savesCollectionId = ''saves''\<rparr>"

definition w0 :: world where
  "w0 = \<lparr>calls = [], console = []\<rparr>"

text \<open>A service that answers every call.\<close>

fun respond_ok :: "call list \<Rightarrow> call \<Rightarrow> response" where
  "respond_ok h (Avatars_getInitials n) = Inr (Str ''https://cloud/avatars/initials'')"
| "respond_ok h (Storage_createFile b i f) = Inr (Obj [(''$id'', Str ''file1'')])"
| "respond_ok h (Storage_getFilePreview b i x y g q) = Inr (Str ''https://cloud/preview/file1'')"
| "respond_ok h (Storage_deleteFile b i) = Inr (Obj [])"
| "respond_ok h Account_get = Inr (Obj [(''$id'', Str ''acc1'')])"
| "respond_ok h (Databases_listDocuments d c qs) =
     Inr (Obj [(''total'', Num 0), (''documents'', Arr [])])"
| "respond_ok h c = Inr (Obj [(''$id'', Str ''doc1'')])"

definition unique0 :: "call list \<Rightarrow> jsval" where
  "unique0 h = Str ''unique()''"

definition sdk_ok :: sdk where
  "sdk_ok = \<lparr>respond = respond_ok, unique = unique0\<rparr>"

text \<open>A service that stores files but rejects every document write.\<close>

fun respond_write_fails :: "call list \<Rightarrow> call \<Rightarrow> response" where
  "respond_write_fails h (Databases_createDocument d c i x) = Inl (Str ''network error'')"
| "respond_write_fails h (Databases_updateDocument d c i x) = Inl (Str ''network error'')"
| "respond_write_fails h c = respond_ok h c"

definition sdk_write_fails :: sdk where
  "sdk_write_fails = \<lparr>respond = respond_write_fails, unique = unique0\<rparr>"



text \<open>A service that cannot be reached.\<close>

fun respond_down :: "call list \<Rightarrow> call \<Rightarrow> response" where
  "respond_down h c = Inl (Str ''network error'')"

definition sdk_down :: sdk where
  "sdk_down = \<lparr>respond = respond_down, unique = unique0\<rparr>"


definition credentials0 :: Credentials where
  "credentials0 = \<lparr>Credentials.email = ''ann@example.org'',
                   Credentials.password = ''secret123''\<rparr>"

definition post0 :: INewPost where
  "post0 = \<lparr>INewPost.userId = ''u1'', INewPost.caption = ''hi'',
            INewPost.file = [Obj [(''name'', Str ''a.png'')]],
            INewPost.location = None, INewPost.tags = Some ''a, b''\<rparr>"

definition update0 :: IUpdatePost where
  "update0 = \<lparr>IUpdatePost.postId = ''p1'', IUpdatePost.caption = ''hi'',
              IUpdatePost.imageId = ''old1'', IUpdatePost.imageUrl = Str ''https://cloud/preview/old1'',
              IUpdatePost.file = [Obj [(''name'', Str ''b.png'')]],
              IUpdatePost.location = None, IUpdatePost.tags = Some ''a, b''\<rparr>"

lemmas action_defs =
  return_def throw_def andThen_def try_catch_def perform_def console_log_def lift_def ID_unique_def

lemmas run_defs =
  new_calls_def new_logs_def run_responses_def remote_responses_def remote_count_def

section \<open>Guards on missing arguments\<close>

text \<open>
  C8. When \<^verbatim>\<open>postId\<close> or \<^verbatim>\<open>imageId\<close> is missing or empty, \<^verbatim>\<open>deletePost\<close>
  returns \<^verbatim>\<open>undefined\<close> and leaves the world as it was: no SDK call is made, neither
  the document deletion nor the file deletion, and nothing is logged.
\<close>

theorem deletePost_missing_argument:
  assumes "pid = None \<or> pid = Some [] \<or> iid = None \<or> iid = Some []"
  shows "deletePost sdk cfg pid iid w = (Inr Undefined, w)"
  using assms by (auto simp add: deletePost_def of_string_opt_def return_def)

theorem deletePost_missing_argument_witness:
  "deletePost sdk_ok cfg0 (Some ''p1'') (Some []) w0 = (Inr Undefined, w0)
   \<and> deletePost sdk_ok cfg0 None (Some ''file1'') w0 = (Inr Undefined, w0)
   \<and> new_calls w0 (snd (deletePost sdk_ok cfg0 None (Some ''file1'') w0)) = []"
  using deletePost_missing_argument [of "Some ''p1''" "Some []" sdk_ok cfg0 w0]
        deletePost_missing_argument [of None "Some ''file1''" sdk_ok cfg0 w0]
  by (simp add: new_calls_def)

section \<open>Query lists\<close>

lemma decimal_samples:
  "decimal 0 = ''0''" "decimal 18 = ''18''" "decimal (- 407) = ''-407''"
  "decimal 9007199254740991 = ''9007199254740991''"
  by (simp_all add: decimal_def digits10.simps)

text \<open>
  C6. For every \<^verbatim>\<open>pageParam\<close>, \<^verbatim>\<open>getInfinitePosts\<close> makes one SDK call, the
  document listing on the post collection, and its query list is
  \<^verbatim>\<open>orderDesc("$updatedAt")\<close>, \<^verbatim>\<open>limit(9)\<close>, followed by
  \<^verbatim>\<open>cursorAfter(pageParam.toString())\<close> exactly when \<^verbatim>\<open>pageParam\<close> is truthy. For
  an integer \<open>n\<close> in the safe range that is: exactly when \<open>n\<close> is not zero, and the
  cursor is the decimal numeral of \<open>n\<close>.
\<close>

theorem getInfinitePosts_queries:
  "calls (snd (getInfinitePosts sdk cfg pageParam w)) =
     calls w @ [Databases_listDocuments (databaseId cfg) (postCollectionId cfg)
                  ([Query_orderDesc ''$updatedAt'', Query_limit 9] @
                   (if truthy_number pageParam
                    then [Query_cursorAfter (toString pageParam)]
                    else []))]
   \<and> (\<bar>n\<bar> \<le> 9007199254740991 \<longrightarrow>
      calls (snd (getInfinitePosts sdk cfg (SafeInteger (Abs_safe_integer n)) w)) =
        calls w @ [Databases_listDocuments (databaseId cfg) (postCollectionId cfg)
                     ([Query_orderDesc ''$updatedAt'', Query_limit 9] @
                      (if n = 0 then [] else [Query_cursorAfter (decimal n)]))])"
  by (auto simp add: getInfinitePosts_def action_defs Let_def Abs_safe_integer_inverse
      split: sum.splits)

theorem getInfinitePosts_queries_witness:
  "calls (snd (getInfinitePosts sdk_ok cfg0 (SafeInteger (Abs_safe_integer 18)) w0)) =
     [Databases_listDocuments ''db'' ''posts''
        [Query_orderDesc ''$updatedAt'', Query_limit 9, Query_cursorAfter ''18'']]
   \<and> calls (snd (getInfinitePosts sdk_ok cfg0 (SafeInteger (Abs_safe_integer 0)) w0)) =
     [Databases_listDocuments ''db'' ''posts'' [Query_orderDesc ''$updatedAt'', Query_limit 9]]
   \<and> calls (snd (getInfinitePosts sdk_ok cfg0 (OtherNumber ''1e+21'') w0)) =
     [Databases_listDocuments ''db'' ''posts''
        [Query_orderDesc ''$updatedAt'', Query_limit 9, Query_cursorAfter ''1e+21'']]
   \<and> calls (snd (getInfinitePosts sdk_ok cfg0 NaN w0)) =
     [Databases_listDocuments ''db'' ''posts'' [Query_orderDesc ''$updatedAt'', Query_limit 9]]"
  using getInfinitePosts_queries [of sdk_ok cfg0 "OtherNumber ''1e+21''" w0 18]
        getInfinitePosts_queries [of sdk_ok cfg0 NaN w0 0]
  by (simp add: cfg0_def w0_def decimal_samples)

text \<open>
  C10. \<^verbatim>\<open>getUsers\<close> makes one SDK call, the document listing on the user collection,
  whose query list is \<^verbatim>\<open>orderDesc("$createdAt")\<close> followed by \<^verbatim>\<open>limit(limit)\<close>
  exactly when the limit is present and not zero; so \<^verbatim>\<open>getUsers(0)\<close> behaves as
  \<^verbatim>\<open>getUsers()\<close> and asks for the list without a limit.
\<close>

theorem getUsers_limit:
  "calls (snd (getUsers sdk cfg lim w)) =
     calls w @ [Databases_listDocuments (databaseId cfg) (userCollectionId cfg)
                  (Query_orderDesc ''$createdAt'' #
                   (case lim of
                      None \<Rightarrow> []
                    | Some n \<Rightarrow> if n = 0 then [] else [Query_limit n]))]
   \<and> getUsers sdk cfg (Some 0) w = getUsers sdk cfg None w"
  by (auto simp add: getUsers_def action_defs Let_def split: sum.splits option.splits)

theorem getUsers_limit_witness:
  "calls (snd (getUsers sdk_ok cfg0 (Some 0) w0)) =
     [Databases_listDocuments ''db'' ''users'' [Query_orderDesc ''$createdAt'']]
   \<and> calls (snd (getUsers sdk_ok cfg0 (Some 10) w0)) =
     [Databases_listDocuments ''db'' ''users'' [Query_orderDesc ''$createdAt'', Query_limit 10]]"
  using getUsers_limit [of sdk_ok cfg0 None w0] getUsers_limit [of sdk_ok cfg0 "Some 10" w0]
  by (simp add: cfg0_def w0_def)

section \<open>The current user\<close>

lemma getCurrentUser_no_document:
  assumes "respond sdk (calls w) Account_get = Inr acct" and "truthy acct"
    and "respond sdk (calls w @ [Account_get])
           (Databases_listDocuments (databaseId cfg) (userCollectionId cfg)
              [Query_equal ''accountId'' (field acct ''$id'')]) = Inr r"
    and "truthy r" and "field r ''documents'' = Arr []"
  shows "getCurrentUser sdk cfg w =
           (Inr Undefined,
            w\<lparr>calls := calls w @ [Account_get,
                 Databases_listDocuments (databaseId cfg) (userCollectionId cfg)
                   [Query_equal ''accountId'' (field acct ''$id'')]]\<rparr>)"
  using assms by (simp add: getCurrentUser_def getAccount_def action_defs)

lemma getCurrentUser_null_forwarded:
  assumes "fst (getCurrentUser sdk cfg w) = Inr Null"
    and "new_logs w (snd (getCurrentUser sdk cfg w)) = []"
  shows "\<exists>c r. (c, Inr r) \<in> set (run_responses sdk (getCurrentUser sdk cfg) w)
               \<and> index0 (field r ''documents'') = Inr Null"
  using assms
  by (auto simp add: getCurrentUser_def getAccount_def action_defs run_defs
      split: sum.splits if_splits) blast

lemma getCurrentUser_caught:
  assumes "new_logs w (snd (getCurrentUser sdk cfg w)) \<noteq> []"
  shows "fst (getCurrentUser sdk cfg w) = Inr Null"
  using assms
  by (auto simp add: getCurrentUser_def getAccount_def action_defs run_defs
      split: sum.splits if_splits)

text \<open>
  C9. When the account lookup succeeds and the listing of the user collection answers
  with an empty \<^verbatim>\<open>documents\<close> list, \<^verbatim>\<open>getCurrentUser\<close> returns \<^verbatim>\<open>undefined\<close>, the
  first element of the empty list, and catches nothing (the console is unchanged). The
  \<^verbatim>\<open>null\<close> of the handler is returned whenever an exception is caught and logged, and
  only then: a run that returns \<^verbatim>\<open>null\<close> without logging passed on a first document
  that was itself \<^verbatim>\<open>null\<close>.
\<close>

theorem getCurrentUser_undefined_not_null:
  "(respond sdk (calls w) Account_get = Inr acct \<and> truthy acct
      \<and> respond sdk (calls w @ [Account_get])
           (Databases_listDocuments (databaseId cfg) (userCollectionId cfg)
              [Query_equal ''accountId'' (field acct ''$id'')]) = Inr r
      \<and> truthy r \<and> field r ''documents'' = Arr []
    \<longrightarrow> getCurrentUser sdk cfg w =
          (Inr Undefined,
           w\<lparr>calls := calls w @ [Account_get,
                Databases_listDocuments (databaseId cfg) (userCollectionId cfg)
                  [Query_equal ''accountId'' (field acct ''$id'')]]\<rparr>)
        \<and> Undefined \<noteq> Null)
   \<and> (new_logs w (snd (getCurrentUser sdk cfg w)) \<noteq> []
        \<longrightarrow> fst (getCurrentUser sdk cfg w) = Inr Null)
   \<and> (fst (getCurrentUser sdk cfg w) = Inr Null
        \<and> new_logs w (snd (getCurrentUser sdk cfg w)) = []
        \<longrightarrow> (\<exists>c r'. (c, Inr r') \<in> set (run_responses sdk (getCurrentUser sdk cfg) w)
                    \<and> index0 (field r' ''documents'') = Inr Null))"
  using getCurrentUser_no_document [of sdk w acct cfg r]
        getCurrentUser_caught [of w sdk cfg]
        getCurrentUser_null_forwarded [of sdk cfg w]
  by simp

theorem getCurrentUser_undefined_not_null_witness:
  "getCurrentUser sdk_ok cfg0 w0 =
     (Inr Undefined,
      \<lparr>calls = [Account_get,
                Databases_listDocuments ''db'' ''users''
                  [Query_equal ''accountId'' (Str ''acc1'')]],
       console = []\<rparr>)
   \<and> getCurrentUser sdk_down cfg0 w0 =
     (Inr Null, \<lparr>calls = [Account_get], console = [Str ''network error'', Error]\<rparr>)"
proof -
  have "getCurrentUser sdk_ok cfg0 w0 =
     (Inr Undefined,
      \<lparr>calls = [Account_get,
                Databases_listDocuments ''db'' ''users''
                  [Query_equal ''accountId'' (Str ''acc1'')]],
       console = []\<rparr>)"
    using getCurrentUser_undefined_not_null
      [of sdk_ok w0 "Obj [(''$id'', Str ''acc1'')]" cfg0
          "Obj [(''total'', Num 0), (''documents'', Arr [])]"]
    by (simp add: cfg0_def w0_def sdk_ok_def)
  moreover have "getCurrentUser sdk_down cfg0 w0 =
     (Inr Null, \<lparr>calls = [Account_get], console = [Str ''network error'', Error]\<rparr>)"
    by code_simp
  ultimately show ?thesis by simp
qed

section \<open>Reasoning about runs\<close>

lemma responses_append:
  "responses sdk h (cs @ ds) = responses sdk h cs @ responses sdk (h @ cs) ds"
  by (induction cs arbitrary: h) auto

lemma andThen_return [simp]: "andThen (return v) k = k v"
  by (rule ext) (simp add: andThen_def return_def)

lemma andThen_throw [simp]: "andThen (throw e) k = throw e"
  by (rule ext) (simp add: andThen_def throw_def)

lemma andThen_assoc [simp]: "andThen (andThen m k) k' = andThen m (\<lambda>x. andThen (k x) k')"
  by (rule ext) (simp add: andThen_def split: prod.splits sum.splits)

lemma try_catch_return [simp]: "try_catch (return v) h = return v"
  by (rule ext) (simp add: try_catch_def return_def)

lemma try_catch_throw [simp]: "try_catch (throw e) h = h e"
  by (rule ext) (simp add: try_catch_def throw_def)

lemma lift_Inl [simp]: "lift (Inl e) = throw e"
  by (rule ext) (simp add: lift_def throw_def)

lemma lift_Inr [simp]: "lift (Inr v) = return v"
  by (rule ext) (simp add: lift_def return_def)

lemma spec_return: "T [] [] (Inr v) \<Longrightarrow> spec sdk (return v) T"
  unfolding spec_def return_def
  by (intro allI exI [of _ "[]"]) simp

lemma spec_throw: "T [] [] (Inl e) \<Longrightarrow> spec sdk (throw e) T"
  unfolding spec_def throw_def
  by (intro allI exI [of _ "[]"]) simp

text \<open>Running \<open>n\<close> after a prefix of the run that added \<open>cs\<close> and \<open>ls\<close>.\<close>

lemma spec_after:
  assumes "spec sdk n (\<lambda>rs ls. T (responses sdk (calls w) cs @ rs) (ls0 @ ls))"
  shows "\<exists>cs' ls'.
           snd (n (w\<lparr>calls := calls w @ cs, console := console w @ ls0\<rparr>))
             = w\<lparr>calls := calls w @ cs', console := console w @ ls'\<rparr>
           \<and> T (responses sdk (calls w) cs') ls'
                (fst (n (w\<lparr>calls := calls w @ cs, console := console w @ ls0\<rparr>)))"
proof -
  let ?w1 = "w\<lparr>calls := calls w @ cs, console := console w @ ls0\<rparr>"
  from assms obtain ds ms where
    w2: "snd (n ?w1) = ?w1\<lparr>calls := calls ?w1 @ ds, console := console ?w1 @ ms\<rparr>"
    and t: "T (responses sdk (calls w) cs @ responses sdk (calls ?w1) ds) (ls0 @ ms) (fst (n ?w1))"
    unfolding spec_def by blast
  show ?thesis
    by (rule exI [of _ "cs @ ds"], rule exI [of _ "ls0 @ ms"])
       (use w2 t in \<open>simp add: responses_append\<close>)
qed

lemma spec_log_then:
  assumes "spec sdk (k Undefined) (\<lambda>rs ls. T rs (v # ls))"
  shows "spec sdk (andThen (console_log v) k) T"
  unfolding spec_def
proof
  fix w :: world
  have "andThen (console_log v) k w = k Undefined (w\<lparr>calls := calls w @ [], console := console w @ [v]\<rparr>)"
    by (simp add: andThen_def console_log_def)
  moreover have "spec sdk (k Undefined) (\<lambda>rs ls. T (responses sdk (calls w) [] @ rs) ([v] @ ls))"
    using assms by simp
  ultimately show "\<exists>cs ls. snd (andThen (console_log v) k w)
                     = w\<lparr>calls := calls w @ cs, console := console w @ ls\<rparr>
                   \<and> T (responses sdk (calls w) cs) ls (fst (andThen (console_log v) k w))"
    using spec_after [of sdk "k Undefined" T w "[]" "[v]"] by simp
qed

lemma spec_try_perform:
  assumes "\<And>e. spec sdk (h e) (\<lambda>rs ls. T ((c, Inl e) # rs) ls)"
    and "\<And>v. spec sdk (try_catch (k v) h) (\<lambda>rs ls. T ((c, Inr v) # rs) ls)"
  shows "spec sdk (try_catch (andThen (perform sdk c) k) h) T"
  unfolding spec_def
proof
  fix w :: world
  let ?m = "try_catch (andThen (perform sdk c) k) h"
  let ?w1 = "w\<lparr>calls := calls w @ [c], console := console w @ []\<rparr>"
  show "\<exists>cs ls. snd (?m w) = w\<lparr>calls := calls w @ cs, console := console w @ ls\<rparr>
          \<and> T (responses sdk (calls w) cs) ls (fst (?m w))"
  proof (cases "respond sdk (calls w) c")
    case (Inl e)
    then have "?m w = h e ?w1"
      by (simp add: try_catch_def andThen_def perform_def)
    moreover have "spec sdk (h e) (\<lambda>rs ls. T (responses sdk (calls w) [c] @ rs) ([] @ ls))"
      using assms(1) [of e] Inl by simp
    ultimately show ?thesis
      using spec_after [of sdk "h e" T w "[c]" "[]"] by simp
  next
    case (Inr v)
    then have "?m w = try_catch (k v) h ?w1"
      by (simp add: try_catch_def andThen_def perform_def)
    moreover have "spec sdk (try_catch (k v) h)
                     (\<lambda>rs ls. T (responses sdk (calls w) [c] @ rs) ([] @ ls))"
      using assms(2) [of v] Inr by simp
    ultimately show ?thesis
      using spec_after [of sdk "try_catch (k v) h" T w "[c]" "[]"] by simp
  qed
qed

text \<open>A call of a function that never throws, inside a \<^verbatim>\<open>try\<close>.\<close>

lemma spec_try_call:
  assumes "spec sdk m U"
    and "\<And>rs ls r. U rs ls r \<Longrightarrow>
           \<exists>v. r = Inr v \<and> spec sdk (try_catch (k v) h) (\<lambda>rs' ls'. T (rs @ rs') (ls @ ls'))"
  shows "spec sdk (try_catch (andThen m k) h) T"
  unfolding spec_def
proof
  fix w :: world
  from assms(1) obtain cs ls where
    w1: "snd (m w) = w\<lparr>calls := calls w @ cs, console := console w @ ls\<rparr>"
    and u: "U (responses sdk (calls w) cs) ls (fst (m w))"
    unfolding spec_def by blast
  from assms(2) [OF u] obtain v where
    v: "fst (m w) = Inr v"
    and s: "spec sdk (try_catch (k v) h)
              (\<lambda>rs' ls'. T (responses sdk (calls w) cs @ rs') (ls @ ls'))"
    by blast
  have "try_catch (andThen m k) h w = try_catch (k v) h (snd (m w))"
    using v by (cases "m w") (simp add: try_catch_def andThen_def)
  then show "\<exists>cs ls. snd (try_catch (andThen m k) h w)
               = w\<lparr>calls := calls w @ cs, console := console w @ ls\<rparr>
             \<and> T (responses sdk (calls w) cs) ls (fst (try_catch (andThen m k) h w))"
    using spec_after [OF s] w1 by simp
qed

lemma spec_try_unique:
  assumes "\<And>uid. spec sdk (try_catch (k uid) h) T"
  shows "spec sdk (try_catch (andThen (ID_unique sdk) k) h) T"
proof -
  have "try_catch (andThen (ID_unique sdk) k) h w = try_catch (k (unique sdk (calls w))) h w" for w
    by (simp add: try_catch_def andThen_def ID_unique_def)
  then show ?thesis
    using assms unfolding spec_def by simp
qed

lemma spec_run:
  assumes "spec sdk m T"
  shows "T (run_responses sdk m w) (new_logs w (snd (m w))) (fst (m w))"
proof -
  from assms obtain cs ls where
    "snd (m w) = w\<lparr>calls := calls w @ cs, console := console w @ ls\<rparr>"
    "T (responses sdk (calls w) cs) ls (fst (m w))"
    unfolding spec_def by blast
  then show ?thesis by (simp add: run_defs)
qed

lemmas spec_intros = spec_return spec_throw spec_log_then spec_try_perform spec_try_unique

text \<open>The three functions the others call inside their \<^verbatim>\<open>try\<close>, by their outcomes.\<close>

lemma deleteFile_outcomes:
  "spec sdk (deleteFile sdk cfg fid)
     (\<lambda>rs ls r.
        (\<exists>e. rs = [(Storage_deleteFile (storageId cfg) fid, Inl e)] \<and> ls = [e]
               \<and> r = Inr Undefined)
        \<or> (\<exists>v. rs = [(Storage_deleteFile (storageId cfg) fid, Inr v)] \<and> ls = []
               \<and> r = Inr (Obj [(''status'', Str ''ok'')])))"
  unfolding deleteFile_def
  by (rule spec_intros | simp)+

lemma spec_try_deleteFile:
  assumes "\<And>e. spec sdk (try_catch (k Undefined) h)
                 (\<lambda>rs ls. T ((Storage_deleteFile (storageId cfg) fid, Inl e) # rs) (e # ls))"
    and "\<And>v. spec sdk (try_catch (k (Obj [(''status'', Str ''ok'')])) h)
                 (\<lambda>rs ls. T ((Storage_deleteFile (storageId cfg) fid, Inr v) # rs) ls)"
  shows "spec sdk (try_catch (andThen (deleteFile sdk cfg fid) k) h) T"
  by (rule spec_try_call [OF deleteFile_outcomes]) (use assms in auto)

lemma uploadFile_outcomes:
  "spec sdk (uploadFile sdk cfg f)
     (\<lambda>rs ls r.
        (\<exists>uid e. rs = [(Storage_createFile (storageId cfg) uid f, Inl e)]
               \<and> ls = [e] \<and> r = Inr Undefined)
        \<or> (\<exists>uid v. rs = [(Storage_createFile (storageId cfg) uid f, Inr v)]
               \<and> ls = [] \<and> r = Inr v))"
  unfolding uploadFile_def
  by (rule spec_intros | simp)+

lemma spec_try_uploadFile:
  assumes "\<And>uid e. spec sdk (try_catch (k Undefined) h)
                 (\<lambda>rs ls. T ((Storage_createFile (storageId cfg) uid f, Inl e) # rs) (e # ls))"
    and "\<And>uid v. spec sdk (try_catch (k v) h)
                 (\<lambda>rs ls. T ((Storage_createFile (storageId cfg) uid f, Inr v) # rs) ls)"
  shows "spec sdk (try_catch (andThen (uploadFile sdk cfg f) k) h) T"
  by (rule spec_try_call [OF uploadFile_outcomes]) (use assms in auto)

lemma getFilePreview_outcomes:
  "spec sdk (getFilePreview sdk cfg fid)
     (\<lambda>rs ls r.
        (\<exists>e. rs = [(Storage_getFilePreview (storageId cfg) fid 2000 2000 ImageGravity_Top 100, Inl e)]
               \<and> ls = [e] \<and> r = Inr Undefined)
        \<or> (\<exists>v. rs = [(Storage_getFilePreview (storageId cfg) fid 2000 2000 ImageGravity_Top 100, Inr v)]
               \<and> \<not> truthy v \<and> ls = [Error] \<and> r = Inr Undefined)
        \<or> (\<exists>v. rs = [(Storage_getFilePreview (storageId cfg) fid 2000 2000 ImageGravity_Top 100, Inr v)]
               \<and> truthy v \<and> ls = [] \<and> r = Inr v))"
  unfolding getFilePreview_def
  by (rule spec_intros conjI impI | simp)+

lemma spec_try_getFilePreview:
  assumes "\<And>e. spec sdk (try_catch (k Undefined) h)
                 (\<lambda>rs ls. T ((Storage_getFilePreview (storageId cfg) fid 2000 2000 ImageGravity_Top 100,
                               Inl e) # rs) (e # ls))"
    and "\<And>v. \<not> truthy v \<Longrightarrow> spec sdk (try_catch (k Undefined) h)
                 (\<lambda>rs ls. T ((Storage_getFilePreview (storageId cfg) fid 2000 2000 ImageGravity_Top 100,
                               Inr v) # rs) (Error # ls))"
    and "\<And>v. truthy v \<Longrightarrow> spec sdk (try_catch (k v) h)
                 (\<lambda>rs ls. T ((Storage_getFilePreview (storageId cfg) fid 2000 2000 ImageGravity_Top 100,
                               Inr v) # rs) ls)"
  shows "spec sdk (try_catch (andThen (getFilePreview sdk cfg fid) k) h) T"
  by (rule spec_try_call [OF getFilePreview_outcomes]) (use assms in auto)

lemma saveUserToDB_outcomes:
  "spec sdk (saveUserToDB sdk cfg u)
     (\<lambda>rs ls r.
        (\<exists>uid e. rs = [(Databases_createDocument (databaseId cfg) (userCollectionId cfg) uid u, Inl e)]
               \<and> ls = [e] \<and> r = Inr Undefined)
        \<or> (\<exists>uid v. rs = [(Databases_createDocument (databaseId cfg) (userCollectionId cfg) uid u, Inr v)]
               \<and> ls = [] \<and> r = Inr v))"
  unfolding saveUserToDB_def
  by (rule spec_intros | simp)+

lemma spec_try_saveUserToDB:
  assumes "\<And>uid e. spec sdk (try_catch (k Undefined) h)
                 (\<lambda>rs ls. T ((Databases_createDocument (databaseId cfg) (userCollectionId cfg) uid u,
                               Inl e) # rs) (e # ls))"
    and "\<And>uid v. spec sdk (try_catch (k v) h)
                 (\<lambda>rs ls. T ((Databases_createDocument (databaseId cfg) (userCollectionId cfg) uid u,
                               Inr v) # rs) ls)"
  shows "spec sdk (try_catch (andThen (saveUserToDB sdk cfg u) k) h) T"
  by (rule spec_try_call [OF saveUserToDB_outcomes]) (use assms in auto)

lemma getAccount_outcomes:
  "spec sdk (getAccount sdk)
     (\<lambda>rs ls r.
        (\<exists>e. rs = [(Account_get, Inl e)] \<and> ls = [e] \<and> r = Inr Undefined)
        \<or> (\<exists>v. rs = [(Account_get, Inr v)] \<and> ls = [] \<and> r = Inr v))"
  unfolding getAccount_def
  by (rule spec_intros | simp)+

lemma spec_try_getAccount:
  assumes "\<And>e. spec sdk (try_catch (k Undefined) h) (\<lambda>rs ls. T ((Account_get, Inl e) # rs) (e # ls))"
    and "\<And>v. spec sdk (try_catch (k v) h) (\<lambda>rs ls. T ((Account_get, Inr v) # rs) ls)"
  shows "spec sdk (try_catch (andThen (getAccount sdk) k) h) T"
  by (rule spec_try_call [OF getAccount_outcomes]) (use assms in auto)

lemma spec_try_lift:
  assumes "\<And>e. r = Inl e \<Longrightarrow> spec sdk (h e) T"
    and "\<And>v. r = Inr v \<Longrightarrow> spec sdk (try_catch (k v) h) T"
  shows "spec sdk (try_catch (andThen (lift r) k) h) T"
  using assms by (cases r) simp_all

lemmas spec_rules =
  spec_intros spec_try_deleteFile spec_try_uploadFile spec_try_getFilePreview
  spec_try_saveUserToDB spec_try_getAccount spec_try_lift conjI impI

section \<open>Outcomes\<close>

text \<open>
  What each function logs and returns, by the answers its SDK calls received. The tables
  \<open>single_call_outcome\<close>, \<open>createUserAccount_outcome\<close>, \<open>getCurrentUser_outcome\<close> and
  \<open>deletePost_outcome\<close> list every run of the functions they describe.
\<close>

lemma observedI: "spec sdk m T \<Longrightarrow> observed T sdk m w"
  unfolding observed_def by (rule spec_run)

lemma returns_writtenI:
  assumes "spec sdk m (\<lambda>rs ls r. r = Inr (written rs))"
  shows "returns_written sdk m w"
  using spec_run [OF assms, of w] by (simp add: returns_written_def)

lemma success_runI:
  assumes "spec sdk m (\<lambda>rs ls r. list_all answered rs \<longrightarrow> ls = [] \<and> length rs = n)"
  shows "success_run n sdk m w"
  using spec_run [OF assms, of w] by (simp add: success_run_def)

lemma saveUserToDB_outcome:
  "observed (single_call_outcome False None) sdk (saveUserToDB sdk cfg u) w"
  unfolding saveUserToDB_def Let_def
  by (rule observedI) (rule spec_rules allI | simp split: option.splits)+

lemma signInAccount_outcome:
  "observed (single_call_outcome False None) sdk (signInAccount sdk cr) w"
  unfolding signInAccount_def Let_def
  by (rule observedI) (rule spec_rules allI | simp split: option.splits)+

lemma getAccount_outcome:
  "observed (single_call_outcome False None) sdk (getAccount sdk) w"
  unfolding getAccount_def Let_def
  by (rule observedI) (rule spec_rules allI | simp split: option.splits)+

lemma signOutAccount_outcome:
  "observed (single_call_outcome False None) sdk (signOutAccount sdk) w"
  unfolding signOutAccount_def Let_def
  by (rule observedI) (rule spec_rules allI | simp split: option.splits)+

lemma uploadFile_outcome:
  "observed (single_call_outcome False None) sdk (uploadFile sdk cfg f) w"
  unfolding uploadFile_def Let_def
  by (rule observedI) (rule spec_rules allI | simp split: option.splits)+

lemma deleteFile_outcome:
  "observed (single_call_outcome False (Some (Obj [(''status'', Str ''ok'')]))) sdk (deleteFile sdk cfg fid) w"
  unfolding deleteFile_def Let_def
  by (rule observedI) (rule spec_rules allI | simp split: option.splits)+

lemma getFilePreview_outcome:
  "observed (single_call_outcome True None) sdk (getFilePreview sdk cfg fid) w"
  unfolding getFilePreview_def Let_def
  by (rule observedI) (rule spec_rules allI | simp split: option.splits)+

lemma searchPosts_outcome:
  "observed (single_call_outcome True None) sdk (searchPosts sdk cfg q) w"
  unfolding searchPosts_def Let_def
  by (rule observedI) (rule spec_rules allI | simp split: option.splits)+

lemma getInfinitePosts_outcome:
  "observed (single_call_outcome True None) sdk (getInfinitePosts sdk cfg page) w"
  unfolding getInfinitePosts_def Let_def
  by (rule observedI) (rule spec_rules allI | simp split: option.splits)+

lemma likePost_outcome:
  "observed (single_call_outcome True None) sdk (likePost sdk cfg lp likes) w"
  unfolding likePost_def Let_def
  by (rule observedI) (rule spec_rules allI | simp split: option.splits)+

lemma savePost_outcome:
  "observed (single_call_outcome True None) sdk (savePost sdk cfg ui lp) w"
  unfolding savePost_def Let_def
  by (rule observedI) (rule spec_rules allI | simp split: option.splits)+

lemma getRecentPosts_outcome:
  "observed (single_call_outcome True None) sdk (getRecentPosts sdk cfg) w"
  unfolding getRecentPosts_def Let_def
  by (rule observedI) (rule spec_rules allI | simp split: option.splits)+

lemma getUsers_outcome:
  "observed (single_call_outcome True None) sdk (getUsers sdk cfg lim) w"
  unfolding getUsers_def Let_def
  by (rule observedI) (rule spec_rules allI | simp split: option.splits)+

lemma getUserById_outcome:
  "observed (single_call_outcome True None) sdk (getUserById sdk cfg ui) w"
  unfolding getUserById_def Let_def
  by (rule observedI) (rule spec_rules allI | simp split: option.splits)+

lemma deleteSavedPost_outcome:
  "observed (single_call_outcome True (Some (Obj [(''status'', Str ''Ok'')]))) sdk (deleteSavedPost sdk cfg sid) w"
  unfolding deleteSavedPost_def Let_def
  by (rule observedI) (rule spec_rules allI | simp split: option.splits)+

lemma getPostById_outcome:
  "truthy (of_string_opt pid) \<Longrightarrow> observed (single_call_outcome True None) sdk (getPostById sdk cfg pid) w"
  unfolding getPostById_def Let_def
  by (rule observedI) (rule spec_rules allI | simp split: option.splits)+

lemma getUserPosts_outcome:
  "truthy (of_string_opt uo) \<Longrightarrow> observed (single_call_outcome True None) sdk (getUserPosts sdk cfg uo) w"
  unfolding getUserPosts_def Let_def
  by (rule observedI) (rule spec_rules allI | simp split: option.splits)+

lemma createUserAccount_outcomes:
  "observed createUserAccount_outcome sdk (createUserAccount sdk cfg nu) w"
  unfolding createUserAccount_def
  by (rule observedI) (rule spec_rules | simp)+

lemma getCurrentUser_outcomes:
  "observed getCurrentUser_outcome sdk (getCurrentUser sdk cfg) w"
  unfolding getCurrentUser_def
  by (rule observedI) (rule spec_rules | simp split: sum.splits)+

lemma deletePost_outcomes:
  "truthy (of_string_opt pid) \<Longrightarrow> truthy (of_string_opt iid)
     \<Longrightarrow> observed deletePost_outcome sdk (deletePost sdk cfg pid iid) w"
  unfolding deletePost_def
  by (rule observedI) (rule spec_rules | simp)+

lemma createPost_written: "returns_written sdk (createPost sdk cfg np) w"
  unfolding createPost_def Let_def
  by (rule returns_writtenI) (rule spec_rules | simp)+

lemma updatePost_written: "returns_written sdk (updatePost sdk cfg up) w"
  unfolding updatePost_def Let_def
  by (rule returns_writtenI) (rule spec_rules | simp)+

lemma updateUser_written: "returns_written sdk (updateUser sdk cfg uu) w"
  unfolding updateUser_def Let_def
  by (rule returns_writtenI) (rule spec_rules | simp)+

lemma createPost_success: "success_run 3 sdk (createPost sdk cfg np) w"
  unfolding createPost_def Let_def
  by (rule success_runI) (rule spec_rules | simp)+

lemma updatePost_success:
  "success_run (if IUpdatePost.file up = [] then 1 else 4) sdk (updatePost sdk cfg up) w"
  unfolding updatePost_def Let_def
  by (rule success_runI) (rule spec_rules | simp)+

lemma updateUser_success:
  "success_run
     (if IUpdateUser.file uu = [] then 1 else if IUpdateUser.imageId uu = [] then 3 else 4)
     sdk (updateUser sdk cfg uu) w"
  unfolding updateUser_def Let_def
  by (rule success_runI) (rule spec_rules | simp)+

section \<open>The failure policy\<close>


































section \<open>Remote calls per invocation\<close>

lemma filter_remote_responses:
  "map fst (filter (\<lambda>cr. remote (fst cr)) (responses sdk h cs)) = filter remote cs"
  by (induction cs arbitrary: h) auto

lemma remote_count_responses:
  "length (filter (\<lambda>cr. remote (fst cr)) (run_responses sdk m w)) = remote_count m w"
  unfolding run_responses_def remote_count_def
  using filter_remote_responses [of sdk "calls w" "new_calls w (snd (m w))", THEN arg_cong, of length]
  by simp

lemma countI:
  assumes "spec sdk m (\<lambda>rs ls r. length (filter (\<lambda>cr. remote (fst cr)) rs) \<in> S)"
  shows "remote_count m w \<in> S"
  using spec_run [OF assms, of w] by (simp add: remote_count_responses)

lemma saveUserToDB_count: "remote_count (saveUserToDB sdk cfg u) w \<in> {1}"
  unfolding saveUserToDB_def Let_def
  by (rule countI [where sdk = sdk]) (rule spec_rules | simp split: option.splits)+

lemma signInAccount_count: "remote_count (signInAccount sdk cr) w \<in> {1}"
  unfolding signInAccount_def Let_def
  by (rule countI [where sdk = sdk]) (rule spec_rules | simp split: option.splits)+

lemma getAccount_count: "remote_count (getAccount sdk) w \<in> {1}"
  unfolding getAccount_def Let_def
  by (rule countI [where sdk = sdk]) (rule spec_rules | simp split: option.splits)+

lemma signOutAccount_count: "remote_count (signOutAccount sdk) w \<in> {1}"
  unfolding signOutAccount_def Let_def
  by (rule countI [where sdk = sdk]) (rule spec_rules | simp split: option.splits)+

lemma uploadFile_count: "remote_count (uploadFile sdk cfg f) w \<in> {1}"
  unfolding uploadFile_def Let_def
  by (rule countI [where sdk = sdk]) (rule spec_rules | simp split: option.splits)+

lemma deleteFile_count: "remote_count (deleteFile sdk cfg fid) w \<in> {1}"
  unfolding deleteFile_def Let_def
  by (rule countI [where sdk = sdk]) (rule spec_rules | simp split: option.splits)+

lemma searchPosts_count: "remote_count (searchPosts sdk cfg q) w \<in> {1}"
  unfolding searchPosts_def Let_def
  by (rule countI [where sdk = sdk]) (rule spec_rules | simp split: option.splits)+

lemma getInfinitePosts_count: "remote_count (getInfinitePosts sdk cfg page) w \<in> {1}"
  unfolding getInfinitePosts_def Let_def
  by (rule countI [where sdk = sdk]) (rule spec_rules | simp split: option.splits)+

lemma likePost_count: "remote_count (likePost sdk cfg lp likes) w \<in> {1}"
  unfolding likePost_def Let_def
  by (rule countI [where sdk = sdk]) (rule spec_rules | simp split: option.splits)+

lemma savePost_count: "remote_count (savePost sdk cfg ui lp) w \<in> {1}"
  unfolding savePost_def Let_def
  by (rule countI [where sdk = sdk]) (rule spec_rules | simp split: option.splits)+

lemma deleteSavedPost_count: "remote_count (deleteSavedPost sdk cfg sid) w \<in> {1}"
  unfolding deleteSavedPost_def Let_def
  by (rule countI [where sdk = sdk]) (rule spec_rules | simp split: option.splits)+

lemma getRecentPosts_count: "remote_count (getRecentPosts sdk cfg) w \<in> {1}"
  unfolding getRecentPosts_def Let_def
  by (rule countI [where sdk = sdk]) (rule spec_rules | simp split: option.splits)+

lemma getUsers_count: "remote_count (getUsers sdk cfg lim) w \<in> {1}"
  unfolding getUsers_def Let_def
  by (rule countI [where sdk = sdk]) (rule spec_rules | simp split: option.splits)+

lemma getUserById_count: "remote_count (getUserById sdk cfg ui) w \<in> {1}"
  unfolding getUserById_def Let_def
  by (rule countI [where sdk = sdk]) (rule spec_rules | simp split: option.splits)+

lemma getFilePreview_count: "remote_count (getFilePreview sdk cfg fid) w \<in> {0}"
  unfolding getFilePreview_def Let_def
  by (rule countI [where sdk = sdk]) (rule spec_rules | simp split: option.splits)+

lemma createUserAccount_count: "remote_count (createUserAccount sdk cfg nu) w \<in> {1, 2}"
  unfolding createUserAccount_def Let_def
  by (rule countI [where sdk = sdk]) (rule spec_rules | simp split: option.splits)+

lemma getCurrentUser_count: "remote_count (getCurrentUser sdk cfg) w \<in> {1, 2}"
  unfolding getCurrentUser_def Let_def
  by (rule countI [where sdk = sdk]) (rule spec_rules | simp split: option.splits)+

lemma createPost_count: "remote_count (createPost sdk cfg np) w \<in> {1, 2, 3}"
  unfolding createPost_def Let_def
  by (rule countI [where sdk = sdk]) (rule spec_rules | simp split: option.splits)+

lemma updatePost_count: "remote_count (updatePost sdk cfg up) w \<in> {1, 2, 3}"
  unfolding updatePost_def Let_def
  by (rule countI [where sdk = sdk]) (rule spec_rules | simp split: option.splits)+

lemma updateUser_count: "remote_count (updateUser sdk cfg uu) w \<in> {1, 2, 3}"
  unfolding updateUser_def Let_def
  by (rule countI [where sdk = sdk]) (rule spec_rules | simp split: option.splits)+

lemma getPostById_count: "truthy (of_string_opt pid) \<Longrightarrow> remote_count (getPostById sdk cfg pid) w \<in> {1}"
  unfolding getPostById_def Let_def
  by (rule countI [where sdk = sdk]) (rule spec_rules | simp split: option.splits)+

lemma getUserPosts_count: "truthy (of_string_opt uo) \<Longrightarrow> remote_count (getUserPosts sdk cfg uo) w \<in> {1}"
  unfolding getUserPosts_def Let_def
  by (rule countI [where sdk = sdk]) (rule spec_rules | simp split: option.splits)+

lemma deletePost_count: "truthy (of_string_opt pid) \<Longrightarrow> truthy (of_string_opt iid) \<Longrightarrow> remote_count (deletePost sdk cfg pid iid) w \<in> {1, 2}"
  unfolding deletePost_def Let_def
  by (rule countI [where sdk = sdk]) (rule spec_rules | simp split: option.splits)+

lemma guarded_count:
  "\<not> truthy (of_string_opt pid) \<Longrightarrow> remote_count (getPostById sdk cfg pid) w = 0"
  "\<not> truthy (of_string_opt uo) \<Longrightarrow> remote_count (getUserPosts sdk cfg uo) w = 0"
  "\<not> truthy (of_string_opt pid) \<or> \<not> truthy (of_string_opt iid)
     \<Longrightarrow> remote_count (deletePost sdk cfg pid iid) w = 0"
  by (auto simp add: getPostById_def getUserPosts_def deletePost_def throw_def return_def
      remote_count_def new_calls_def)

text \<open>
  C7, as the code has it. Fourteen of the exported functions make exactly one remote call
  in every invocation. \<^verbatim>\<open>getFilePreview\<close> makes none; \<^verbatim>\<open>getPostById\<close>,
  \<^verbatim>\<open>getUserPosts\<close> and \<^verbatim>\<open>deletePost\<close> make none when an identifier they need is
  missing or empty. The functions that chain dependent calls make more than one:
  \<^verbatim>\<open>createUserAccount\<close>, \<^verbatim>\<open>getCurrentUser\<close> and \<^verbatim>\<open>deletePost\<close> one or two,
  \<^verbatim>\<open>createPost\<close>, \<^verbatim>\<open>updatePost\<close> and \<^verbatim>\<open>updateUser\<close> between one and three.
\<close>

theorem remote_calls_per_invocation:
  "remote_count (saveUserToDB sdk cfg u) w = 1
   \<and> remote_count (signInAccount sdk cr) w = 1
   \<and> remote_count (getAccount sdk) w = 1
   \<and> remote_count (signOutAccount sdk) w = 1
   \<and> remote_count (uploadFile sdk cfg f) w = 1
   \<and> remote_count (deleteFile sdk cfg fid) w = 1
   \<and> remote_count (searchPosts sdk cfg q) w = 1
   \<and> remote_count (getInfinitePosts sdk cfg page) w = 1
   \<and> remote_count (likePost sdk cfg lp likes) w = 1
   \<and> remote_count (savePost sdk cfg ui lp) w = 1
   \<and> remote_count (deleteSavedPost sdk cfg sid) w = 1
   \<and> remote_count (getRecentPosts sdk cfg) w = 1
   \<and> remote_count (getUsers sdk cfg lim) w = 1
   \<and> remote_count (getUserById sdk cfg ui) w = 1
   \<and> remote_count (getFilePreview sdk cfg fid) w = 0
   \<and> remote_count (getPostById sdk cfg pid) w = (if truthy (of_string_opt pid) then 1 else 0)
   \<and> remote_count (getUserPosts sdk cfg uo) w = (if truthy (of_string_opt uo) then 1 else 0)
   \<and> remote_count (createUserAccount sdk cfg nu) w \<in> {1, 2}
   \<and> remote_count (getCurrentUser sdk cfg) w \<in> {1, 2}
   \<and> remote_count (deletePost sdk cfg pid iid) w
         \<in> (if truthy (of_string_opt pid) \<and> truthy (of_string_opt iid) then {1, 2} else {0})
   \<and> remote_count (createPost sdk cfg np) w \<in> {1, 2, 3}
   \<and> remote_count (updatePost sdk cfg up) w \<in> {1, 2, 3}
   \<and> remote_count (updateUser sdk cfg uu) w \<in> {1, 2, 3}"
  using saveUserToDB_count [of sdk cfg u w]
        signInAccount_count [of sdk cr w]
        getAccount_count [of sdk w]
        signOutAccount_count [of sdk w]
        uploadFile_count [of sdk cfg f w]
        deleteFile_count [of sdk cfg fid w]
        searchPosts_count [of sdk cfg q w]
        getInfinitePosts_count [of sdk cfg page w]
        likePost_count [of sdk cfg lp likes w]
        savePost_count [of sdk cfg ui lp w]
        deleteSavedPost_count [of sdk cfg sid w]
        getRecentPosts_count [of sdk cfg w]
        getUsers_count [of sdk cfg lim w]
        getUserById_count [of sdk cfg ui w]
        getFilePreview_count [of sdk cfg fid w]
        createUserAccount_count [of sdk cfg nu w]
        getCurrentUser_count [of sdk cfg w]
        createPost_count [of sdk cfg np w]
        updatePost_count [of sdk cfg up w]
        updateUser_count [of sdk cfg uu w]
        getPostById_count [of pid sdk cfg w]
        getUserPosts_count [of uo sdk cfg w]
        deletePost_count [of pid iid sdk cfg w]
        guarded_count(1) [of pid sdk cfg w]
        guarded_count(2) [of uo sdk cfg w]
        guarded_count(3) [of pid iid sdk cfg w]
  by simp

lemma createPost_ok:
  "createPost sdk_ok cfg0 post0 w0 =
     (Inr (Obj [(''$id'', Str ''doc1'')]),
      \<lparr>calls =
         [Storage_createFile ''bucket'' (Str ''unique()'') (Obj [(''name'', Str ''a.png'')]),
          Storage_getFilePreview ''bucket'' (Str ''file1'') 2000 2000 ''top'' 100,
          Databases_createDocument ''db'' ''posts'' (Str ''unique()'')
            (Obj [(''creator'', Str ''u1''), (''caption'', Str ''hi''),
                  (''imageUrl'', Str ''https://cloud/preview/file1''),
                  (''imageId'', Str ''file1''), (''location'', Undefined),
                  (''tags'', Arr [Str ''a'', Str ''b''])])],
       console = []\<rparr>)"
  by code_simp

text \<open>
  Where the claim fails as it is stated: a successful \<^verbatim>\<open>createPost\<close> uploads the
  file and then creates the document, two remote calls; a \<^verbatim>\<open>deletePost\<close> without a
  \<^verbatim>\<open>postId\<close> makes none.
\<close>

theorem remote_calls_per_invocation_counterexample:
  "remote_count (createPost sdk_ok cfg0 post0) w0 = 2
   \<and> filter remote (new_calls w0 (snd (createPost sdk_ok cfg0 post0 w0))) =
       [Storage_createFile ''bucket'' (Str ''unique()'') (Obj [(''name'', Str ''a.png'')]),
        Databases_createDocument ''db'' ''posts'' (Str ''unique()'')
          (Obj [(''creator'', Str ''u1''), (''caption'', Str ''hi''),
                (''imageUrl'', Str ''https://cloud/preview/file1''),
                (''imageId'', Str ''file1''), (''location'', Undefined),
                (''tags'', Arr [Str ''a'', Str ''b''])])]
   \<and> remote_count (deletePost sdk_ok cfg0 None (Some ''file1'')) w0 = 0"
proof -
  have "remote_count (deletePost sdk_ok cfg0 None (Some ''file1'')) w0 = 0"
    by (simp add: deletePost_def of_string_opt_def return_def remote_count_def new_calls_def)
  then show ?thesis
    unfolding remote_count_def createPost_ok by (simp add: new_calls_def w0_def)
qed

theorem remote_calls_per_invocation_witness:
  "remote_count (getPostById sdk_ok cfg0 (Some ''p1'')) w0 = 1
   \<and> remote_count (getPostById sdk_ok cfg0 None) w0 = 0
   \<and> remote_count (signInAccount sdk_down credentials0) w0 = 1"
  using remote_calls_per_invocation
          [where sdk = sdk_ok and cfg = cfg0 and w = w0 and pid = "Some ''p1''",
           THEN conjunct2, THEN conjunct2, THEN conjunct2, THEN conjunct2, THEN conjunct2,
           THEN conjunct2, THEN conjunct2, THEN conjunct2, THEN conjunct2, THEN conjunct2,
           THEN conjunct2, THEN conjunct2, THEN conjunct2, THEN conjunct2, THEN conjunct2,
           THEN conjunct1]
        remote_calls_per_invocation
          [where sdk = sdk_ok and cfg = cfg0 and w = w0 and pid = None,
           THEN conjunct2, THEN conjunct2, THEN conjunct2, THEN conjunct2, THEN conjunct2,
           THEN conjunct2, THEN conjunct2, THEN conjunct2, THEN conjunct2, THEN conjunct2,
           THEN conjunct2, THEN conjunct2, THEN conjunct2, THEN conjunct2, THEN conjunct2,
           THEN conjunct1]
        remote_calls_per_invocation
          [where sdk = sdk_down and cr = credentials0 and w = w0,
           THEN conjunct2, THEN conjunct1]
  by (simp add: of_string_opt_def)

section \<open>What a successful call returns\<close>

lemma forwardsI:
  assumes "spec sdk m (\<lambda>rs ls r. ls = [] \<and> filter (\<lambda>cr. remote (fst cr)) rs \<noteq> []
                          \<longrightarrow> r = snd (last (filter (\<lambda>cr. remote (fst cr)) rs)))"
  shows "forwards sdk m w"
  using spec_run [OF assms, of w] by (simp add: forwards_def remote_responses_def)

lemma returnsI:
  assumes "spec sdk m (\<lambda>rs ls r. ls = [] \<and> filter (\<lambda>cr. remote (fst cr)) rs \<noteq> []
                          \<longrightarrow> r = Inr v)"
  shows "returns_on_success v sdk m w"
  using spec_run [OF assms, of w] by (simp add: returns_on_success_def remote_responses_def)

lemma forwards_lastI:
  assumes "spec sdk m (\<lambda>rs ls r. ls = [] \<longrightarrow> rs \<noteq> [] \<and> r = snd (last rs))"
  shows "forwards_last sdk m w"
  using spec_run [OF assms, of w] by (simp add: forwards_last_def)

lemma returns_first_documentI:
  assumes "spec sdk m (\<lambda>rs ls r. ls = [] \<longrightarrow> rs \<noteq> []
                          \<and> (case snd (last rs) of
                                Inl e \<Rightarrow> False
                              | Inr v \<Rightarrow> r = index0 (field v ''documents'')))"
  shows "returns_first_document sdk m w"
  using spec_run [OF assms, of w] by (simp add: returns_first_document_def)

lemma forwards_updateI:
  assumes "spec sdk m (\<lambda>rs ls r. ls = [] \<longrightarrow> filter is_update rs \<noteq> []
                          \<and> r = snd (last (filter is_update rs))
                          \<and> (case old of
                                None \<Rightarrow> is_update (last rs)
                              | Some c \<Rightarrow> fst (last rs) = c \<and> is_update (last (butlast rs))))"
  shows "forwards_update old sdk m w"
  using spec_run [OF assms, of w] by (simp add: forwards_update_def)

lemma signInAccount_forwards: "forwards sdk (signInAccount sdk cr) w"
  unfolding signInAccount_def Let_def
  by (rule forwardsI) (rule spec_rules allI | simp split: option.splits)+

lemma saveUserToDB_forwards: "forwards sdk (saveUserToDB sdk cfg u) w"
  unfolding saveUserToDB_def Let_def
  by (rule forwardsI) (rule spec_rules allI | simp split: option.splits)+

lemma createUserAccount_forwards: "forwards sdk (createUserAccount sdk cfg nu) w"
  unfolding createUserAccount_def Let_def
  by (rule forwardsI) (rule spec_rules allI | simp split: option.splits)+

lemma getAccount_forwards: "forwards sdk (getAccount sdk) w"
  unfolding getAccount_def Let_def
  by (rule forwardsI) (rule spec_rules allI | simp split: option.splits)+

lemma signOutAccount_forwards: "forwards sdk (signOutAccount sdk) w"
  unfolding signOutAccount_def Let_def
  by (rule forwardsI) (rule spec_rules allI | simp split: option.splits)+

lemma uploadFile_forwards: "forwards sdk (uploadFile sdk cfg f) w"
  unfolding uploadFile_def Let_def
  by (rule forwardsI) (rule spec_rules allI | simp split: option.splits)+

lemma createPost_forwards: "forwards sdk (createPost sdk cfg np) w"
  unfolding createPost_def Let_def
  by (rule forwardsI) (rule spec_rules allI | simp split: option.splits)+

lemma searchPosts_forwards: "forwards sdk (searchPosts sdk cfg q) w"
  unfolding searchPosts_def Let_def
  by (rule forwardsI) (rule spec_rules allI | simp split: option.splits)+

lemma getInfinitePosts_forwards: "forwards sdk (getInfinitePosts sdk cfg page) w"
  unfolding getInfinitePosts_def Let_def
  by (rule forwardsI) (rule spec_rules allI | simp split: option.splits)+

lemma getPostById_forwards: "forwards sdk (getPostById sdk cfg pid) w"
  unfolding getPostById_def Let_def
  by (rule forwardsI) (rule spec_rules allI | simp split: option.splits)+

lemma likePost_forwards: "forwards sdk (likePost sdk cfg lp likes) w"
  unfolding likePost_def Let_def
  by (rule forwardsI) (rule spec_rules allI | simp split: option.splits)+

lemma savePost_forwards: "forwards sdk (savePost sdk cfg ui lp) w"
  unfolding savePost_def Let_def
  by (rule forwardsI) (rule spec_rules allI | simp split: option.splits)+

lemma getUserPosts_forwards: "forwards sdk (getUserPosts sdk cfg uo) w"
  unfolding getUserPosts_def Let_def
  by (rule forwardsI) (rule spec_rules allI | simp split: option.splits)+

lemma getRecentPosts_forwards: "forwards sdk (getRecentPosts sdk cfg) w"
  unfolding getRecentPosts_def Let_def
  by (rule forwardsI) (rule spec_rules allI | simp split: option.splits)+

lemma getUsers_forwards: "forwards sdk (getUsers sdk cfg lim) w"
  unfolding getUsers_def Let_def
  by (rule forwardsI) (rule spec_rules allI | simp split: option.splits)+

lemma getUserById_forwards: "forwards sdk (getUserById sdk cfg ui) w"
  unfolding getUserById_def Let_def
  by (rule forwardsI) (rule spec_rules allI | simp split: option.splits)+

lemma getFilePreview_forwards: "forwards_last sdk (getFilePreview sdk cfg fid) w"
  unfolding getFilePreview_def
  by (rule forwards_lastI) (rule spec_rules | simp)+

lemma getCurrentUser_first: "returns_first_document sdk (getCurrentUser sdk cfg) w"
  unfolding getCurrentUser_def
  by (rule returns_first_documentI) (rule spec_rules | simp)+

lemma deleteFile_returns:
  "returns_on_success (Obj [(''status'', Str ''ok'')]) sdk (deleteFile sdk cfg fid) w"
  unfolding deleteFile_def
  by (rule returnsI) (rule spec_rules | simp)+

lemma deleteSavedPost_returns:
  "returns_on_success (Obj [(''status'', Str ''Ok'')]) sdk (deleteSavedPost sdk cfg sid) w"
  unfolding deleteSavedPost_def
  by (rule returnsI) (rule spec_rules | simp)+

lemma deletePost_returns:
  "returns_on_success (Obj [(''status'', Str ''Ok'')]) sdk (deletePost sdk cfg pid iid) w"
  unfolding deletePost_def
  by (rule returnsI) (rule spec_rules | simp)+

lemma updatePost_forwards:
  "forwards_update
     (if IUpdatePost.file up = [] then None
      else Some (Storage_deleteFile (storageId cfg) (Str (IUpdatePost.imageId up))))
     sdk (updatePost sdk cfg up) w"
  unfolding updatePost_def Let_def
  by (rule forwards_updateI) (rule spec_rules | simp)+

lemma updateUser_forwards:
  "forwards_update
     (if IUpdateUser.file uu = [] \<or> IUpdateUser.imageId uu = [] then None
      else Some (Storage_deleteFile (storageId cfg) (Str (IUpdateUser.imageId uu))))
     sdk (updateUser sdk cfg uu) w"
  unfolding updateUser_def Let_def
  by (rule forwards_updateI) (rule spec_rules | simp)+

text \<open>
  C4, as the code has it. Sixteen of the exported functions return the answer of their
  last remote call unchanged. For those that make one call this is their whole
  behaviour (\<open>single_call_outcome\<close>): when the SDK answers \<open>v\<close>, and \<open>v\<close> is truthy
  where the function checks it, nothing is logged and the result is \<open>v\<close>.
  \<^verbatim>\<open>createUserAccount\<close>, whose account is truthy and whose avatar is built, returns
  the answer to the document creation; \<^verbatim>\<open>createPost\<close> returns the answer to the
  document creation when it is truthy, and reaches it, in three calls and logging
  nothing, when every call is answered with a truthy value. The other functions return a
  value of their own making or an earlier answer: \<^verbatim>\<open>deleteFile\<close> returns
  \<^verbatim>\<open>{ status: "ok" }\<close>, \<^verbatim>\<open>deleteSavedPost\<close> and \<^verbatim>\<open>deletePost\<close> return
  \<^verbatim>\<open>{ status: "Ok" }\<close>; \<^verbatim>\<open>getCurrentUser\<close> returns the first element of the
  \<^verbatim>\<open>documents\<close> of the listing; \<^verbatim>\<open>updatePost\<close> and \<^verbatim>\<open>updateUser\<close> return the
  truthy answer of the document update, which is followed by the deletion of the old
  file when a file is replaced; \<^verbatim>\<open>getFilePreview\<close> makes no remote call and returns
  the URL the SDK builds.
\<close>

theorem success_value:
  "forwards sdk (signInAccount sdk cr) w
   \<and> forwards sdk (saveUserToDB sdk cfg u) w
   \<and> forwards sdk (createUserAccount sdk cfg nu) w
   \<and> forwards sdk (getAccount sdk) w
   \<and> forwards sdk (signOutAccount sdk) w
   \<and> forwards sdk (uploadFile sdk cfg f) w
   \<and> forwards sdk (createPost sdk cfg np) w
   \<and> forwards sdk (searchPosts sdk cfg q) w
   \<and> forwards sdk (getInfinitePosts sdk cfg page) w
   \<and> forwards sdk (getPostById sdk cfg pid) w
   \<and> forwards sdk (likePost sdk cfg lp likes) w
   \<and> forwards sdk (savePost sdk cfg ui lp) w
   \<and> forwards sdk (getUserPosts sdk cfg uo) w
   \<and> forwards sdk (getRecentPosts sdk cfg) w
   \<and> forwards sdk (getUsers sdk cfg lim) w
   \<and> forwards sdk (getUserById sdk cfg ui) w
   \<and> forwards_last sdk (getFilePreview sdk cfg fid) w
   \<and> returns_first_document sdk (getCurrentUser sdk cfg) w
   \<and> returns_on_success (Obj [(''status'', Str ''ok'')]) sdk (deleteFile sdk cfg fid) w
   \<and> returns_on_success (Obj [(''status'', Str ''Ok'')]) sdk (deleteSavedPost sdk cfg sid) w
   \<and> returns_on_success (Obj [(''status'', Str ''Ok'')]) sdk (deletePost sdk cfg pid iid) w
   \<and> forwards_update
         (if IUpdatePost.file up = [] then None
          else Some (Storage_deleteFile (storageId cfg) (Str (IUpdatePost.imageId up))))
         sdk (updatePost sdk cfg up) w
   \<and> forwards_update
         (if IUpdateUser.file uu = [] \<or> IUpdateUser.imageId uu = [] then None
          else Some (Storage_deleteFile (storageId cfg) (Str (IUpdateUser.imageId uu))))
         sdk (updateUser sdk cfg uu) w
   \<and> observed (single_call_outcome False None) sdk (saveUserToDB sdk cfg u) w
   \<and> observed (single_call_outcome False None) sdk (signInAccount sdk cr) w
   \<and> observed (single_call_outcome False None) sdk (getAccount sdk) w
   \<and> observed (single_call_outcome False None) sdk (signOutAccount sdk) w
   \<and> observed (single_call_outcome False None) sdk (uploadFile sdk cfg f) w
   \<and> observed (single_call_outcome False (Some (Obj [(''status'', Str ''ok'')]))) sdk (deleteFile sdk cfg fid) w
   \<and> observed (single_call_outcome True None) sdk (getFilePreview sdk cfg fid) w
   \<and> observed (single_call_outcome True None) sdk (searchPosts sdk cfg q) w
   \<and> observed (single_call_outcome True None) sdk (getInfinitePosts sdk cfg page) w
   \<and> observed (single_call_outcome True None) sdk (likePost sdk cfg lp likes) w
   \<and> observed (single_call_outcome True None) sdk (savePost sdk cfg ui lp) w
   \<and> observed (single_call_outcome True None) sdk (getRecentPosts sdk cfg) w
   \<and> observed (single_call_outcome True None) sdk (getUsers sdk cfg lim) w
   \<and> observed (single_call_outcome True None) sdk (getUserById sdk cfg ui) w
   \<and> observed (single_call_outcome True (Some (Obj [(''status'', Str ''Ok'')]))) sdk (deleteSavedPost sdk cfg sid) w
   \<and> (truthy (of_string_opt pid) \<longrightarrow>
        observed (single_call_outcome True None) sdk (getPostById sdk cfg pid) w)
   \<and> (truthy (of_string_opt uo) \<longrightarrow>
        observed (single_call_outcome True None) sdk (getUserPosts sdk cfg uo) w)
   \<and> observed createUserAccount_outcome sdk (createUserAccount sdk cfg nu) w
   \<and> observed getCurrentUser_outcome sdk (getCurrentUser sdk cfg) w
   \<and> (truthy (of_string_opt pid) \<and> truthy (of_string_opt iid) \<longrightarrow>
        observed deletePost_outcome sdk (deletePost sdk cfg pid iid) w)
   \<and> returns_written sdk (createPost sdk cfg np) w
   \<and> success_run 3 sdk (createPost sdk cfg np) w
   \<and> returns_written sdk (updatePost sdk cfg up) w
   \<and> success_run (if IUpdatePost.file up = [] then 1 else 4) sdk (updatePost sdk cfg up) w
   \<and> returns_written sdk (updateUser sdk cfg uu) w
   \<and> success_run
         (if IUpdateUser.file uu = [] then 1 else if IUpdateUser.imageId uu = [] then 3 else 4)
         sdk (updateUser sdk cfg uu) w"
  using signInAccount_forwards [of sdk cr w]
        saveUserToDB_forwards [of sdk cfg u w]
        createUserAccount_forwards [of sdk cfg nu w]
        getAccount_forwards [of sdk w]
        signOutAccount_forwards [of sdk w]
        uploadFile_forwards [of sdk cfg f w]
        createPost_forwards [of sdk cfg np w]
        searchPosts_forwards [of sdk cfg q w]
        getInfinitePosts_forwards [of sdk cfg page w]
        getPostById_forwards [of sdk cfg pid w]
        likePost_forwards [of sdk cfg lp likes w]
        savePost_forwards [of sdk cfg ui lp w]
        getUserPosts_forwards [of sdk cfg uo w]
        getRecentPosts_forwards [of sdk cfg w]
        getUsers_forwards [of sdk cfg lim w]
        getUserById_forwards [of sdk cfg ui w]
        getFilePreview_forwards [of sdk cfg fid w]
        getCurrentUser_first [of sdk cfg w]
        deleteFile_returns [of sdk cfg fid w]
        deleteSavedPost_returns [of sdk cfg sid w]
        deletePost_returns [of sdk cfg pid iid w]
        updatePost_forwards [of up cfg sdk w]
        updateUser_forwards [of uu cfg sdk w]
        saveUserToDB_outcome [of sdk cfg u w]
        signInAccount_outcome [of sdk cr w]
        getAccount_outcome [of sdk w]
        signOutAccount_outcome [of sdk w]
        uploadFile_outcome [of sdk cfg f w]
        deleteFile_outcome [of sdk cfg fid w]
        getFilePreview_outcome [of sdk cfg fid w]
        searchPosts_outcome [of sdk cfg q w]
        getInfinitePosts_outcome [of sdk cfg page w]
        likePost_outcome [of sdk cfg lp likes w]
        savePost_outcome [of sdk cfg ui lp w]
        getRecentPosts_outcome [of sdk cfg w]
        getUsers_outcome [of sdk cfg lim w]
        getUserById_outcome [of sdk cfg ui w]
        deleteSavedPost_outcome [of sdk cfg sid w]
        getPostById_outcome [of pid sdk cfg w]
        getUserPosts_outcome [of uo sdk cfg w]
        createUserAccount_outcomes [of sdk cfg nu w]
        getCurrentUser_outcomes [of sdk cfg w]
        deletePost_outcomes [of pid iid sdk cfg w]
        createPost_written [of sdk cfg np w]
        createPost_success [of sdk cfg np w]
        updatePost_written [of sdk cfg up w]
        updatePost_success [of up sdk cfg w]
        updateUser_written [of sdk cfg uu w]
        updateUser_success [of uu sdk cfg w]
  by simp

lemma deleteFile_ok:
  "deleteFile sdk_ok cfg0 (Str ''file1'') w0 =
     (Inr (Obj [(''status'', Str ''ok'')]),
      \<lparr>calls = [Storage_deleteFile ''bucket'' (Str ''file1'')], console = []\<rparr>)"
  by code_simp

lemma signInAccount_ok:
  "signInAccount sdk_ok credentials0 w0 =
     (Inr (Obj [(''$id'', Str ''doc1'')]),
      \<lparr>calls = [Account_createEmailPasswordSession ''ann@example.org'' ''secret123''],
       console = []\<rparr>)"
  by code_simp

text \<open>
  Where the claim fails as it is stated: the SDK answers the file deletion with an empty
  object, and \<^verbatim>\<open>deleteFile\<close> returns \<^verbatim>\<open>{ status: "ok" }\<close> in its place.
\<close>

theorem success_value_counterexample:
  "deleteFile sdk_ok cfg0 (Str ''file1'') w0 =
     (Inr (Obj [(''status'', Str ''ok'')]),
      \<lparr>calls = [Storage_deleteFile ''bucket'' (Str ''file1'')], console = []\<rparr>)
   \<and> remote_responses sdk_ok (deleteFile sdk_ok cfg0 (Str ''file1'')) w0 =
       [(Storage_deleteFile ''bucket'' (Str ''file1''), Inr (Obj []))]
   \<and> \<not> forwards sdk_ok (deleteFile sdk_ok cfg0 (Str ''file1'')) w0"
proof -
  have r: "remote_responses sdk_ok (deleteFile sdk_ok cfg0 (Str ''file1'')) w0 =
       [(Storage_deleteFile ''bucket'' (Str ''file1''), Inr (Obj []))]"
    unfolding remote_responses_def run_responses_def deleteFile_ok
    by (simp add: new_calls_def w0_def sdk_ok_def)
  have "\<not> forwards sdk_ok (deleteFile sdk_ok cfg0 (Str ''file1'')) w0"
    unfolding forwards_def r unfolding deleteFile_ok
    by (simp add: new_logs_def w0_def)
  then show ?thesis using r deleteFile_ok by simp
qed

theorem success_value_witness:
  "new_logs w0 (snd (signInAccount sdk_ok credentials0 w0)) = []
   \<and> remote_responses sdk_ok (signInAccount sdk_ok credentials0) w0 =
       [(Account_createEmailPasswordSession ''ann@example.org'' ''secret123'',
         Inr (Obj [(''$id'', Str ''doc1'')]))]
   \<and> fst (signInAccount sdk_ok credentials0 w0) = Inr (Obj [(''$id'', Str ''doc1'')])
   \<and> forwards sdk_ok (signInAccount sdk_ok credentials0) w0"
proof -
  have "forwards sdk_ok (signInAccount sdk_ok credentials0) w0"
    using success_value [where sdk = sdk_ok and cr = credentials0 and w = w0, THEN conjunct1] .
  moreover have "remote_responses sdk_ok (signInAccount sdk_ok credentials0) w0 =
       [(Account_createEmailPasswordSession ''ann@example.org'' ''secret123'',
         Inr (Obj [(''$id'', Str ''doc1'')]))]"
    unfolding remote_responses_def run_responses_def signInAccount_ok
    by (simp add: new_calls_def w0_def sdk_ok_def)
  moreover have "new_logs w0 (snd (signInAccount sdk_ok credentials0 w0)) = []"
    unfolding signInAccount_ok by (simp add: new_logs_def w0_def)
  moreover have "fst (signInAccount sdk_ok credentials0 w0) = Inr (Obj [(''$id'', Str ''doc1'')])"
    unfolding signInAccount_ok by simp
  ultimately show ?thesis by simp
qed

section \<open>Tags\<close>

lemma split_not_Nil: "split sep s \<noteq> []"
  by (induction s) (auto split: list.splits)

lemma join_Cons: "ps \<noteq> [] \<Longrightarrow> join sep (p # ps) = p @ sep # join sep ps"
  by (cases ps) auto

lemma join_split: "join sep (split sep s) = s"
proof (induction s)
  case Nil
  then show ?case by simp
next
  case (Cons c cs)
  show ?case
  proof (cases "c = sep")
    case True
    then show ?thesis using Cons split_not_Nil [of sep cs] by (simp add: join_Cons)
  next
    case False
    obtain p ps where sp: "split sep cs = p # ps"
      using split_not_Nil [of sep cs] by (cases "split sep cs") auto
    show ?thesis using False Cons sp by (cases ps) auto
  qed
qed

lemma split_pieces: "p \<in> set (split sep s) \<Longrightarrow> set p \<subseteq> set s - {sep}"
proof (induction s arbitrary: p)
  case Nil
  then show ?case by simp
next
  case (Cons c cs)
  show ?case
  proof (cases "c = sep")
    case True
    then show ?thesis using Cons by auto
  next
    case False
    obtain q qs where sp: "split sep cs = q # qs"
      using split_not_Nil [of sep cs] by (cases "split sep cs") auto
    have q: "set q \<subseteq> set cs - {sep}" using Cons.IH [of q] sp by simp
    have qs: "\<And>r. r \<in> set qs \<Longrightarrow> set r \<subseteq> set cs - {sep}" using Cons.IH sp by simp
    from Cons.prems False sp have "p = c # q \<or> p \<in> set qs" by simp
    then show ?thesis using q qs False by auto
  qed
qed

lemma split_join:
  assumes "ps \<noteq> []" and "\<forall>p\<in>set ps. sep \<notin> set p"
  shows "split sep (join sep ps) = ps"
  using assms
proof (induction ps rule: join.induct)
  case (1 sep)
  then show ?case by simp
next
  case (2 sep p)
  then show ?case by (induction p) (auto split: list.splits)
next
  case (3 sep p q ps)
  then have ih: "split sep (join sep (q # ps)) = q # ps" by simp
  from 3 have "sep \<notin> set p" by simp
  then show ?case using ih by (induction p) (auto split: list.splits)
qed

text \<open>
  The array that \<^verbatim>\<open>split\<close> builds is truthy even when it is \<^verbatim>\<open>[""]\<close>, so the
  \<^verbatim>\<open>|| []\<close> of the source only replaces the \<^verbatim>\<open>undefined\<close> of an absent string.
\<close>

lemma convert_tags_spec: "convert_tags tgs = tags_spec tgs"
  by (simp add: convert_tags_def tags_spec_def js_or_def replace_spaces_def split: option.splits)

lemma tags_spec_pieces:
  "\<exists>ps. tags_spec (Some t) = Arr (map Str ps)
        \<and> join CHR '','' ps = filter (\<lambda>c. c \<noteq> CHR '' '') t
        \<and> (\<forall>p\<in>set ps. CHR '','' \<notin> set p \<and> CHR '' '' \<notin> set p)"
proof -
  let ?s = "filter (\<lambda>c. c \<noteq> CHR '' '') t"
  have "\<forall>p\<in>set (split CHR '','' ?s). CHR '','' \<notin> set p \<and> CHR '' '' \<notin> set p"
    using split_pieces [of _ "CHR '',''" ?s] by auto
  then show ?thesis
    using join_split [of "CHR '',''" ?s] by (auto simp add: tags_spec_def)
qed

lemma fst_responses: "map fst (responses sdk h cs) = cs"
  by (induction cs arbitrary: h) auto

lemma tagsI:
  assumes "spec sdk m (\<lambda>rs ls r.
             list_all (\<lambda>cr. stored_tags (fst cr) = None \<or> stored_tags (fst cr) = Some t) rs
             \<and> (case r of
                   Inl e \<Rightarrow> True
                 | Inr v \<Rightarrow> v = Undefined \<or> list_ex (\<lambda>cr. stored_tags (fst cr) = Some t) rs))"
  shows "(\<forall>c\<in>set (new_calls w (snd (m w))). stored_tags c = None \<or> stored_tags c = Some t)
         \<and> (fst (m w) = Inr v \<and> v \<noteq> Undefined
              \<longrightarrow> Some t \<in> stored_tags ` set (new_calls w (snd (m w))))"
proof -
  let ?cs = "new_calls w (snd (m w))"
  let ?rs = "run_responses sdk m w"
  have cs: "?cs = map fst ?rs"
    by (simp add: run_responses_def fst_responses)
  from spec_run [OF assms, of w]
  have a: "list_all (\<lambda>cr. stored_tags (fst cr) = None \<or> stored_tags (fst cr) = Some t) ?rs"
    and b: "case fst (m w) of
              Inl e \<Rightarrow> True
            | Inr v \<Rightarrow> v = Undefined \<or> list_ex (\<lambda>cr. stored_tags (fst cr) = Some t) ?rs"
    by simp_all
  have "\<forall>c\<in>set ?cs. stored_tags c = None \<or> stored_tags c = Some t"
    using a unfolding cs by (auto simp add: list_all_iff)
  moreover have "Some t \<in> stored_tags ` set ?cs" if "fst (m w) = Inr v" "v \<noteq> Undefined"
    using b that unfolding cs by (force simp add: list_ex_iff)
  ultimately show ?thesis by blast
qed

lemma createPost_tags:
  "(\<forall>c\<in>set (new_calls w (snd (createPost sdk cfg np w))).
      stored_tags c = None \<or> stored_tags c = Some (tags_spec (INewPost.tags np)))
   \<and> (fst (createPost sdk cfg np w) = Inr v \<and> v \<noteq> Undefined
        \<longrightarrow> Some (tags_spec (INewPost.tags np))
              \<in> stored_tags ` set (new_calls w (snd (createPost sdk cfg np w))))"
  unfolding createPost_def Let_def
  by (rule tagsI [where sdk = sdk]) (rule spec_rules | simp add: convert_tags_spec)+

lemma updatePost_tags:
  "(\<forall>c\<in>set (new_calls w (snd (updatePost sdk cfg up w))).
      stored_tags c = None \<or> stored_tags c = Some (tags_spec (IUpdatePost.tags up)))
   \<and> (fst (updatePost sdk cfg up w) = Inr v \<and> v \<noteq> Undefined
        \<longrightarrow> Some (tags_spec (IUpdatePost.tags up))
              \<in> stored_tags ` set (new_calls w (snd (updatePost sdk cfg up w))))"
  unfolding updatePost_def Let_def
  by (rule tagsI [where sdk = sdk]) (rule spec_rules | simp add: convert_tags_spec)+

text \<open>
  C5. \<^verbatim>\<open>createPost\<close> and \<^verbatim>\<open>updatePost\<close> convert the tag string in the same way.
  Every document either of them writes carries, as \<^verbatim>\<open>tags\<close>, the conversion of
  \<^verbatim>\<open>post.tags\<close> the specification describes: for a string, the string with every
  space removed, split on commas (pieces that hold neither comma nor space and that,
  joined by commas, give the string without its spaces back); for an absent string, the
  empty array. A call that returns a document has written one.
\<close>

theorem tags_parsed_identically:
  "(\<forall>c\<in>set (new_calls w (snd (createPost sdk cfg post w))).
       stored_tags c = None \<or> stored_tags c = Some (tags_spec (INewPost.tags post)))
   \<and> (\<forall>c\<in>set (new_calls w (snd (updatePost sdk cfg upd w))).
       stored_tags c = None \<or> stored_tags c = Some (tags_spec (IUpdatePost.tags upd)))
   \<and> (fst (createPost sdk cfg post w) = Inr v \<and> v \<noteq> Undefined \<longrightarrow>
        Some (tags_spec (INewPost.tags post))
          \<in> stored_tags ` set (new_calls w (snd (createPost sdk cfg post w))))
   \<and> (fst (updatePost sdk cfg upd w) = Inr v' \<and> v' \<noteq> Undefined \<longrightarrow>
        Some (tags_spec (IUpdatePost.tags upd))
          \<in> stored_tags ` set (new_calls w (snd (updatePost sdk cfg upd w))))
   \<and> tags_spec None = Arr []
   \<and> tags_spec (Some t) = Arr (map Str (split CHR '','' (filter (\<lambda>c. c \<noteq> CHR '' '') t)))
   \<and> (\<exists>ps. tags_spec (Some t) = Arr (map Str ps)
        \<and> join CHR '','' ps = filter (\<lambda>c. c \<noteq> CHR '' '') t
        \<and> (\<forall>p\<in>set ps. CHR '','' \<notin> set p \<and> CHR '' '' \<notin> set p))"
  using createPost_tags [of w sdk cfg post v] updatePost_tags [of w sdk cfg upd v']
        tags_spec_pieces [of t]
  by (simp add: tags_spec_def)

lemma tags_spec_sample: "tags_spec (Some ''a, b'') = Arr [Str ''a'', Str ''b'']"
  by (simp add: tags_spec_def)

lemma updatePost_ok:
  "updatePost sdk_ok cfg0 update0 w0 =
     (Inr (Obj [(''$id'', Str ''doc1'')]),
      \<lparr>calls =
         [Storage_createFile ''bucket'' (Str ''unique()'') (Obj [(''name'', Str ''b.png'')]),
          Storage_getFilePreview ''bucket'' (Str ''file1'') 2000 2000 ''top'' 100,
          Databases_updateDocument ''db'' ''posts'' (Str ''p1'')
            (Obj [(''caption'', Str ''hi''),
                  (''imageUrl'', Str ''https://cloud/preview/file1''),
                  (''imageId'', Str ''file1''), (''location'', Undefined),
                  (''tags'', Arr [Str ''a'', Str ''b''])]),
          Storage_deleteFile ''bucket'' (Str ''old1'')],
       console = []\<rparr>)"
  by code_simp

theorem tags_parsed_identically_witness:
  "Some (Arr [Str ''a'', Str ''b''])
     \<in> stored_tags ` set (new_calls w0 (snd (createPost sdk_ok cfg0 post0 w0)))
   \<and> Some (Arr [Str ''a'', Str ''b''])
     \<in> stored_tags ` set (new_calls w0 (snd (updatePost sdk_ok cfg0 update0 w0)))
   \<and> stored_tags ` set (new_calls w0 (snd (createPost sdk_ok cfg0 post0 w0)))
       = {None, Some (Arr [Str ''a'', Str ''b''])}"
proof -
  have t: "tags_spec (INewPost.tags post0) = Arr [Str ''a'', Str ''b'']"
          "tags_spec (IUpdatePost.tags update0) = Arr [Str ''a'', Str ''b'']"
    by (simp_all add: post0_def update0_def tags_spec_sample)
  have r: "fst (createPost sdk_ok cfg0 post0 w0) = Inr (Obj [(''$id'', Str ''doc1'')])"
          "fst (updatePost sdk_ok cfg0 update0 w0) = Inr (Obj [(''$id'', Str ''doc1'')])"
    by (simp_all add: createPost_ok updatePost_ok)
  have s: "stored_tags ` set (new_calls w0 (snd (createPost sdk_ok cfg0 post0 w0)))
             = {None, Some (Arr [Str ''a'', Str ''b''])}"
    unfolding createPost_ok by (simp add: new_calls_def w0_def insert_commute)
  note th = tags_parsed_identically
      [of w0 sdk_ok cfg0 post0 update0
          "Obj [(''$id'', Str ''doc1'')]" "Obj [(''$id'', Str ''doc1'')]" "''a, b''"]
  have c: "Some (Arr [Str ''a'', Str ''b''])
             \<in> stored_tags ` set (new_calls w0 (snd (createPost sdk_ok cfg0 post0 w0)))"
    using th [THEN conjunct2, THEN conjunct2, THEN conjunct1] by (simp add: t r)
  have u: "Some (Arr [Str ''a'', Str ''b''])
             \<in> stored_tags ` set (new_calls w0 (snd (updatePost sdk_ok cfg0 update0 w0)))"
    using th [THEN conjunct2, THEN conjunct2, THEN conjunct2, THEN conjunct1]
    by (simp add: t r)
  from c u s show ?thesis by (intro conjI)
qed

section \<open>Compensating deletion of uploaded files\<close>

text \<open>
  What \<^verbatim>\<open>createPost\<close> does with the file it uploaded. When the upload succeeded and
  the call then fails without a rejected document write (the preview is missing, or the
  document creation answers a falsy value), the uploaded file is deleted. When the
  document creation rejects, control goes to the \<^verbatim>\<open>catch\<close> and no deletion is
  requested.
\<close>

lemma createPost_files:
  "spec sdk (createPost sdk cfg np)
     (\<lambda>rs ls r.
        (r = Inr Undefined \<and> \<not> list_ex is_failed_write rs \<longrightarrow> deleted rs = uploaded rs)
        \<and> (r \<noteq> Inr Undefined \<longrightarrow> deleted rs = [])
        \<and> (list_ex is_failed_write rs \<longrightarrow> r = Inr Undefined \<and> deleted rs = []
              \<and> length (uploaded rs) = 1))"
  unfolding createPost_def Let_def
  by (rule spec_rules | simp)+

text \<open>
  C2, on the run that shows the defect: the upload and the preview succeed, the document
  creation rejects; \<^verbatim>\<open>createPost\<close> logs the error and returns \<^verbatim>\<open>undefined\<close>, and the
  file \<^verbatim>\<open>file1\<close> it uploaded is never deleted.
\<close>

theorem createPost_leaves_file_when_write_rejects:
  "createPost sdk_write_fails cfg0 post0 w0 =
     (Inr Undefined,
      \<lparr>calls =
         [Storage_createFile ''bucket'' (Str ''unique()'') (Obj [(''name'', Str ''a.png'')]),
          Storage_getFilePreview ''bucket'' (Str ''file1'') 2000 2000 ''top'' 100,
          Databases_createDocument ''db'' ''posts'' (Str ''unique()'')
            (Obj [(''creator'', Str ''u1''), (''caption'', Str ''hi''),
                  (''imageUrl'', Str ''https://cloud/preview/file1''),
                  (''imageId'', Str ''file1''), (''location'', Undefined),
                  (''tags'', Arr [Str ''a'', Str ''b''])])],
       console = [Str ''network error'']\<rparr>)
   \<and> uploaded (run_responses sdk_write_fails (createPost sdk_write_fails cfg0 post0) w0)
       = [Str ''file1'']
   \<and> deleted (run_responses sdk_write_fails (createPost sdk_write_fails cfg0 post0) w0) = []"
proof -
  have c: "createPost sdk_write_fails cfg0 post0 w0 =
     (Inr Undefined,
      \<lparr>calls =
         [Storage_createFile ''bucket'' (Str ''unique()'') (Obj [(''name'', Str ''a.png'')]),
          Storage_getFilePreview ''bucket'' (Str ''file1'') 2000 2000 ''top'' 100,
          Databases_createDocument ''db'' ''posts'' (Str ''unique()'')
            (Obj [(''creator'', Str ''u1''), (''caption'', Str ''hi''),
                  (''imageUrl'', Str ''https://cloud/preview/file1''),
                  (''imageId'', Str ''file1''), (''location'', Undefined),
                  (''tags'', Arr [Str ''a'', Str ''b''])])],
       console = [Str ''network error'']\<rparr>)"
    by code_simp
  have "uploaded (run_responses sdk_write_fails (createPost sdk_write_fails cfg0 post0) w0)
          = [Str ''file1'']"
       "deleted (run_responses sdk_write_fails (createPost sdk_write_fails cfg0 post0) w0) = []"
    unfolding run_responses_def c
    by (simp_all add: new_calls_def w0_def sdk_write_fails_def)
  then show ?thesis using c by simp
qed

text \<open>
  What \<^verbatim>\<open>updatePost\<close> does with files. Without a new file it deletes nothing. With a
  new file: after a successful update it deletes the old file, once, as its last call;
  when the update answers a falsy value it deletes the file it uploaded and keeps the old
  one; when the update rejects, control goes to the \<^verbatim>\<open>catch\<close> and the uploaded file is
  not deleted.
\<close>

lemma updatePost_files:
  "spec sdk (updatePost sdk cfg up)
     (\<lambda>rs ls r.
        (IUpdatePost.file up = [] \<longrightarrow> deleted rs = [] \<and> uploaded rs = [])
        \<and> (IUpdatePost.file up \<noteq> [] \<and> r \<noteq> Inr Undefined \<longrightarrow>
              deleted rs = [Str (IUpdatePost.imageId up)]
              \<and> fst (last rs) = Storage_deleteFile (storageId cfg) (Str (IUpdatePost.imageId up))
              \<and> is_update (last (butlast rs)))
        \<and> (IUpdatePost.file up \<noteq> [] \<and> r = Inr Undefined \<and> \<not> list_ex is_failed_write rs \<longrightarrow>
              deleted rs = uploaded rs)
        \<and> (IUpdatePost.file up \<noteq> [] \<and> list_ex is_failed_write rs \<longrightarrow>
              r = Inr Undefined \<and> deleted rs = [] \<and> length (uploaded rs) = 1))"
  unfolding updatePost_def Let_def
  by (rule spec_rules | simp)+

lemma updateUser_files:
  "spec sdk (updateUser sdk cfg uu)
     (\<lambda>rs ls r.
        (IUpdateUser.file uu = [] \<longrightarrow> deleted rs = [] \<and> uploaded rs = [])
        \<and> (IUpdateUser.file uu \<noteq> [] \<and> r \<noteq> Inr Undefined \<longrightarrow>
              deleted rs = (if IUpdateUser.imageId uu = [] then []
                            else [Str (IUpdateUser.imageId uu)]))
        \<and> (IUpdateUser.file uu \<noteq> [] \<and> r = Inr Undefined \<and> \<not> list_ex is_failed_write rs \<longrightarrow>
              deleted rs = uploaded rs)
        \<and> (IUpdateUser.file uu \<noteq> [] \<and> list_ex is_failed_write rs \<longrightarrow>
              r = Inr Undefined \<and> deleted rs = [] \<and> length (uploaded rs) = 1))"
  unfolding updateUser_def Let_def
  by (rule spec_rules | simp)+

text \<open>
  C3, on the run that shows the defect: a new file is given, the upload and the preview
  succeed, the document update rejects; \<^verbatim>\<open>updatePost\<close> logs the error and returns
  \<^verbatim>\<open>undefined\<close>, the old file \<^verbatim>\<open>old1\<close> is kept, and the replacement \<^verbatim>\<open>file1\<close>
  it uploaded is never deleted.
\<close>

theorem updatePost_leaves_new_file_when_update_rejects:
  "updatePost sdk_write_fails cfg0 update0 w0 =
     (Inr Undefined,
      \<lparr>calls =
         [Storage_createFile ''bucket'' (Str ''unique()'') (Obj [(''name'', Str ''b.png'')]),
          Storage_getFilePreview ''bucket'' (Str ''file1'') 2000 2000 ''top'' 100,
          Databases_updateDocument ''db'' ''posts'' (Str ''p1'')
            (Obj [(''caption'', Str ''hi''),
                  (''imageUrl'', Str ''https://cloud/preview/file1''),
                  (''imageId'', Str ''file1''), (''location'', Undefined),
                  (''tags'', Arr [Str ''a'', Str ''b''])])],
       console = [Str ''network error'']\<rparr>)
   \<and> uploaded (run_responses sdk_write_fails (updatePost sdk_write_fails cfg0 update0) w0)
       = [Str ''file1'']
   \<and> deleted (run_responses sdk_write_fails (updatePost sdk_write_fails cfg0 update0) w0) = []"
proof -
  have c: "updatePost sdk_write_fails cfg0 update0 w0 =
     (Inr Undefined,
      \<lparr>calls =
         [Storage_createFile ''bucket'' (Str ''unique()'') (Obj [(''name'', Str ''b.png'')]),
          Storage_getFilePreview ''bucket'' (Str ''file1'') 2000 2000 ''top'' 100,
          Databases_updateDocument ''db'' ''posts'' (Str ''p1'')
            (Obj [(''caption'', Str ''hi''),
                  (''imageUrl'', Str ''https://cloud/preview/file1''),
                  (''imageId'', Str ''file1''), (''location'', Undefined),
                  (''tags'', Arr [Str ''a'', Str ''b''])])],
       console = [Str ''network error'']\<rparr>)"
    by code_simp
  have "uploaded (run_responses sdk_write_fails (updatePost sdk_write_fails cfg0 update0) w0)
          = [Str ''file1'']"
       "deleted (run_responses sdk_write_fails (updatePost sdk_write_fails cfg0 update0) w0) = []"
    unfolding run_responses_def c
    by (simp_all add: new_calls_def w0_def sdk_write_fails_def)
  then show ?thesis using c by simp
qed

end
